theory Spec2Isabelle
  imports Complex_Main
begin

section \<open>JavaScript values\<close>

text \<open>
  The profile and user-administration controller works on request bodies parsed from
  JSON and on documents of the \<open>User\<close> and \<open>Skill\<close> collections. A JSON value is one of
  the six shapes below; JavaScript's \<open>undefined\<close> (an absent property) is \<open>None\<close> of
  \<open>json option\<close>. A number is a finite double, given by its value, a rational; a
  string is a list of code units below 256; an object is the association list of its
  own properties.
\<close>

datatype json =
    JNull
  | JBool bool
  | JNum rat
  | JStr string
  | JArr "json list"
  | JObj "(string \<times> json) list"

type_synonym jsval = "json option"

text \<open>Truthiness, as \<open>if (x)\<close>, \<open>!x\<close>, \<open>x || y\<close> and \<open>x && y\<close> test it.\<close>

fun truthy :: "jsval \<Rightarrow> bool" where
  "truthy None = False"
| "truthy (Some JNull) = False"
| "truthy (Some (JBool b)) = b"
| "truthy (Some (JNum n)) = (n \<noteq> 0)"
| "truthy (Some (JStr s)) = (s \<noteq> [])"
| "truthy (Some (JArr xs)) = True"
| "truthy (Some (JObj kvs)) = True"

text \<open>\<open>x || d\<close> where the default \<open>d\<close> is a literal.\<close>

definition or_else :: "jsval \<Rightarrow> json \<Rightarrow> json" where
  "or_else x d = (if truthy x then (case x of Some v \<Rightarrow> v | None \<Rightarrow> d) else d)"

text \<open>
  Strict equality \<open>===\<close> (and the \<open>SameValueZero\<close> of \<open>Array.prototype.includes\<close>,
  which agrees with it away from \<open>NaN\<close>) between two values that come from different
  places (a request body, a stored document, a literal): primitives are compared by
  value, arrays and objects by reference, and two separately built ones are never the
  same reference.
\<close>

fun primitive :: "jsval \<Rightarrow> bool" where
  "primitive (Some (JArr xs)) = False"
| "primitive (Some (JObj kvs)) = False"
| "primitive _ = True"

definition strict_eq :: "jsval \<Rightarrow> jsval \<Rightarrow> bool" where
  "strict_eq a b = (primitive a \<and> a = b)"

definition js_includes :: "jsval list \<Rightarrow> jsval \<Rightarrow> bool" where
  "js_includes xs v = list_ex (\<lambda>x. strict_eq x v) xs"

text \<open>
  Reading a property \<open>v.k\<close> of a value that is neither \<open>undefined\<close> nor \<open>null\<close>. Only
  objects carry the property names the controller reads (\<open>startDate\<close>, \<open>endDate\<close>);
  on a primitive or an array the read gives \<open>undefined\<close>.
\<close>

fun get_prop :: "json \<Rightarrow> string \<Rightarrow> jsval" where
  "get_prop (JObj kvs) k = map_of kvs k"
| "get_prop _ k = None"

text \<open>
  Decimal digits of a natural number and of an integer. They print the numbers of the
  examples; how the engine prints a number is a parameter of \<open>to_string\<close>.
\<close>

fun show_nat :: "nat \<Rightarrow> string" where
  "show_nat n =
     (if n < 10 then [char_of (48 + n)]
      else show_nat (n div 10) @ [char_of (48 + n mod 10)])"

declare show_nat.simps [simp del]

definition show_int :: "int \<Rightarrow> string" where
  "show_int i = (if i < 0 then CHR ''-'' # show_nat (nat (- i)) else show_nat (nat i))"

fun join :: "string \<Rightarrow> string list \<Rightarrow> string" where
  "join sep [] = []"
| "join sep [x] = x"
| "join sep (x # y # ys) = x @ sep @ join sep (y # ys)"

text \<open>
  \<open>ToString\<close>, as a template literal, \<open>RegExp.prototype.test\<close> and \<open>new Date\<close> apply it
  to a value that is not a string. An array joins its elements with a comma, \<open>null\<close>
  elements printing as the empty string. The first argument is \<open>Number::toString\<close>
  of the engine, which prints a double in its own format (\<open>0.5\<close>, \<open>1e+21\<close>).
\<close>

fun to_string :: "(rat \<Rightarrow> string) \<Rightarrow> json \<Rightarrow> string" where
  "to_string p JNull = ''null''"
| "to_string p (JBool b) = (if b then ''true'' else ''false'')"
| "to_string p (JNum n) = p n"
| "to_string p (JStr s) = s"
| "to_string p (JArr xs) = join '','' (map (\<lambda>x. if x = JNull then [] else to_string p x) xs)"
| "to_string p (JObj kvs) = ''[object Object]''"

text \<open>\<open>Array.prototype.join\<close>: \<open>null\<close> elements print as the empty string.\<close>

definition array_join :: "(rat \<Rightarrow> string) \<Rightarrow> string \<Rightarrow> json list \<Rightarrow> string" where
  "array_join p sep xs = join sep (map (\<lambda>x. if x = JNull then [] else to_string p x) xs)"

text \<open>
  White space as the class \<open>\s\<close> and \<open>String.prototype.trim\<close> see it, among the code
  units below 256: tab, line feed, vertical tab, form feed, carriage return, space and
  the no-break space.
\<close>

definition is_space :: "char \<Rightarrow> bool" where
  "is_space c = (of_char c \<in> {9, 10, 11, 12, 13, 32, 160 :: nat})"

definition trim :: "string \<Rightarrow> string" where
  "trim s = rev (dropWhile is_space (rev (dropWhile is_space s)))"

section \<open>The e-mail pattern\<close>

text \<open>
  \<^verbatim>\<open>const emailRegex = /^[^\s@]+@[^\s@]+\.[^\s@]+$/;\<close>
  The pattern is a sequence of items between the two anchors; an item is one atom or an
  atom repeated once or more. \<open>matches\<close> accepts exactly the strings a backtracking
  matcher accepts.
\<close>

datatype atom = Lit char | NotSpaceAt

datatype item = One atom | Plus atom

fun atom_ok :: "atom \<Rightarrow> char \<Rightarrow> bool" where
  "atom_ok (Lit d) c = (c = d)"
| "atom_ok NotSpaceAt c = (\<not> is_space c \<and> c \<noteq> CHR ''@'')"

fun matches :: "item list \<Rightarrow> string \<Rightarrow> bool" where
  "matches [] s = (s = [])"
| "matches (One a # r) [] = False"
| "matches (One a # r) (c # s) = (atom_ok a c \<and> matches r s)"
| "matches (Plus a # r) [] = False"
| "matches (Plus a # r) (c # s) = (atom_ok a c \<and> (matches (Plus a # r) s \<or> matches r s))"

definition emailRegex :: "item list" where
  "emailRegex =
     [Plus NotSpaceAt, One (Lit CHR ''@''), Plus NotSpaceAt, One (Lit CHR ''.''), Plus NotSpaceAt]"

text \<open>\<open>emailRegex.test(v)\<close> converts its argument to a string first.\<close>

definition emailRegex_test :: "(rat \<Rightarrow> string) \<Rightarrow> json \<Rightarrow> bool" where
  "emailRegex_test p v = matches emailRegex (to_string p v)"

section \<open>Documents, collections, requests and responses\<close>

text \<open>
  A document is the map from its field names to their values; its \<open>_id\<close> is kept beside
  it, so a collection of users is the list of its \<open>(_id, document)\<close> pairs in storage
  order. The \<open>_id\<close> is written in its string form throughout.
\<close>

type_synonym doc = "string \<rightharpoonup> json"

record database =
  User :: "(string \<times> doc) list"
  Skill :: "doc list"

text \<open>
  What the controller calls and does not define: the instance method
  \<open>correctPassword\<close> of the user model, \<open>jsonwebtoken.sign\<close>, \<open>Date.now\<close>,
  \<open>mongoose.Types.ObjectId.isValid\<close>, the date parser and the number printer of the
  JavaScript engine, and the \<open>populate('skills')\<close> step of a query. They are
  parameters of the model.
\<close>

record env =
  correctPassword :: "jsval \<Rightarrow> jsval \<Rightarrow> bool"
  jwt_sign :: "string \<Rightarrow> string"
  Date_now :: int
  ObjectId_isValid :: "string \<Rightarrow> bool"
  Date_parse :: "string \<Rightarrow> int option"
  Number_toString :: "rat \<Rightarrow> string"
  populate :: "jsval \<Rightarrow> jsval"

text \<open>
  The request: \<open>req.user\<close> as the authentication middleware leaves it (its \<open>_id\<close>,
  \<open>role\<close> and \<open>email\<close> are the fields read), \<open>req.params.id\<close> and the parsed
  \<open>req.body\<close>, an object.
\<close>

record request =
  user_id :: string
  user_role :: jsval
  user_email :: jsval
  params_id :: string
  body :: "string \<rightharpoonup> json"

text \<open>
  A handler ends in one of three ways: \<open>next(new AppError(message, statusCode))\<close>,
  \<open>res.status(code).json(value)\<close>, or \<open>next(err)\<close> from the \<open>catch\<close> block when an
  expression threw (a \<open>TypeError\<close> on reading a property of \<open>undefined\<close> or \<open>null\<close>, or
  on calling a method that a value does not have).
\<close>

datatype response =
    AppError string nat
  | Json nat json
  | Thrown

text \<open>An object literal; a property whose value is \<open>undefined\<close> is left out of the JSON.\<close>

definition obj :: "(string \<times> jsval) list \<Rightarrow> json" where
  "obj kvs = JObj (List.map_filter (\<lambda>(k, v). map_option (Pair k) v) kvs)"

subsection \<open>Queries\<close>

text \<open>
  Modelled from the spec: the models \<open>userModel\<close> and \<open>skillModel\<close>, with their
  schemas (defaults, casts, validators and hooks), are not among the sources. The spec
  describes every operation as a single atomic read, modify or write of one document
  of a document store. So the queries below find documents by comparing values as they
  are, and a write stores the fields that the controller hands over.
\<close>

definition findById :: "database \<Rightarrow> string \<Rightarrow> doc option" where
  "findById db i = map_of (User db) i"

fun replace_doc :: "string \<Rightarrow> doc \<Rightarrow> (string \<times> doc) list \<Rightarrow> (string \<times> doc) list" where
  "replace_doc i d [] = []"
| "replace_doc i d ((j, e) # rest) =
     (if i = j then (j, d) # rest else (j, e) # replace_doc i d rest)"

fun remove_doc :: "string \<Rightarrow> (string \<times> doc) list \<Rightarrow> (string \<times> doc) list" where
  "remove_doc i [] = []"
| "remove_doc i ((j, e) # rest) = (if i = j then rest else (j, e) # remove_doc i rest)"

text \<open>\<open>doc.save()\<close> of a document that was read by its \<open>_id\<close>.\<close>

definition save :: "database \<Rightarrow> string \<Rightarrow> doc \<Rightarrow> database" where
  "save db i d = db\<lparr>User := replace_doc i d (User db)\<rparr>"

text \<open>\<open>findByIdAndUpdate(id, update, {new: true})\<close>: the updated document, if there is one.\<close>

definition findByIdAndUpdate :: "database \<Rightarrow> string \<Rightarrow> doc \<Rightarrow> doc option \<times> database" where
  "findByIdAndUpdate db i upd =
     (case findById db i of
        None \<Rightarrow> (None, db)
      | Some d \<Rightarrow> (Some (d ++ upd), save db i (d ++ upd)))"

definition findByIdAndDelete :: "database \<Rightarrow> string \<Rightarrow> database" where
  "findByIdAndDelete db i = db\<lparr>User := remove_doc i (User db)\<rparr>"

definition find_users :: "database \<Rightarrow> (doc \<Rightarrow> bool) \<Rightarrow> (string \<times> doc) list" where
  "find_users db P = filter (\<lambda>(i, d). P d) (User db)"

definition Skill_findOne :: "database \<Rightarrow> json \<Rightarrow> doc option" where
  "Skill_findOne db val = find (\<lambda>d. d ''value'' = Some val) (Skill db)"

text \<open>\<open>.select('-a -b')\<close> and \<open>.select('a b')\<close>.\<close>

definition select_without :: "string list \<Rightarrow> doc \<Rightarrow> doc" where
  "select_without fs d = d |` (- set fs)"

definition select_only :: "string list \<Rightarrow> doc \<Rightarrow> doc" where
  "select_only fs d = d |` set fs"

definition secret_fields :: "string list" where
  "secret_fields = [''password'', ''passwordResetToken'', ''passwordResetExpires'']"

definition populate_skills :: "env \<Rightarrow> doc \<Rightarrow> doc" where
  "populate_skills ev d = d(''skills'' := populate ev (d ''skills''))"

subsection \<open>Dates\<close>

text \<open>
  \<open>new Date(v)\<close> as a time value, \<open>None\<close> for an invalid date (\<open>NaN\<close>): \<open>undefined\<close>
  is invalid, \<open>null\<close> and booleans convert to numbers, a number outside the range of
  time values is invalid and one inside it loses its fraction, and a string (or the
  string form of an array or object) goes to the engine's parser.
\<close>

definition new_Date :: "env \<Rightarrow> jsval \<Rightarrow> int option" where
  "new_Date ev v =
     (case v of
        None \<Rightarrow> None
      | Some JNull \<Rightarrow> Some 0
      | Some (JBool b) \<Rightarrow> Some (if b then 1 else 0)
      | Some (JNum n) \<Rightarrow>
          (if \<bar>n\<bar> \<le> 8640000000000000
           then Some (if 0 \<le> n then \<lfloor>n\<rfloor> else \<lceil>n\<rceil>)
           else None)
      | Some (JStr s) \<Rightarrow> Date_parse ev s
      | Some (JArr xs) \<Rightarrow> Date_parse ev (to_string (Number_toString ev) (JArr xs))
      | Some (JObj kvs) \<Rightarrow> Date_parse ev (to_string (Number_toString ev) (JObj kvs)))"

section \<open>The controller\<close>

text \<open>
  Each handler takes the environment, the database and the request, and returns its
  response with the database it leaves behind.
\<close>

definition as_array :: "jsval \<Rightarrow> json list option" where
  "as_array v = (case v of Some (JArr xs) \<Rightarrow> Some xs | _ \<Rightarrow> None)"

definition success :: "(string \<times> jsval) list \<Rightarrow> json" where
  "success rest = obj ((''status'', Some (JStr ''success'')) # rest)"

definition default_availability :: json where
  "default_availability = JObj [(''status'', JStr ''available''), (''willingToJoin'', JBool True)]"

text \<open>
  The eleven properties that \<open>getProfile\<close>, \<open>updateProfile\<close> and \<open>getUserById\<close> all
  put first in the user they return, in this order.
\<close>

definition profile_fields :: "string \<Rightarrow> doc \<Rightarrow> (string \<times> jsval) list" where
  "profile_fields i u =
     [(''id'', Some (JStr i)),
      (''fullname'', Some (or_else (u ''fullname'') (JStr []))),
      (''username'', Some (or_else (u ''username'') (JStr []))),
      (''email'', u ''email''),
      (''role'', u ''role''),
      (''avatar'', Some (or_else (u ''avatar'') JNull)),
      (''skills'', Some (or_else (u ''skills'') (JArr []))),
      (''about'', Some (or_else (u ''about'') (JStr []))),
      (''experience'', Some (or_else (u ''experience'') (JStr []))),
      (''yearOfExperience'', Some (or_else (u ''yearOfExperience'') (JNum 0))),
      (''availability'', Some (or_else (u ''availability'') default_availability))]"

text \<open>
  \<^verbatim>\<open>{ startDate: user.expectedWorkDuration.startDate, endDate: user.expectedWorkDuration.endDate }\<close>
  throws when \<open>user.expectedWorkDuration\<close> is \<open>undefined\<close> or \<open>null\<close> (\<open>None\<close> here).
\<close>

definition work_duration :: "doc \<Rightarrow> json option" where
  "work_duration u =
     (if u ''expectedWorkDuration'' = None \<or> u ''expectedWorkDuration'' = Some JNull then None
      else case u ''expectedWorkDuration'' of
             None \<Rightarrow> None
           | Some w \<Rightarrow> Some (obj [(''startDate'', get_prop w ''startDate''),
                                 (''endDate'', get_prop w ''endDate'')]))"

text \<open>
  \<^verbatim>\<open>!!(user.password && user.password.trim())\<close>; \<open>None\<close> when the call of \<open>trim\<close>
  throws because the truthy value is not a string.
\<close>

definition has_password :: "doc \<Rightarrow> bool option" where
  "has_password u =
     (if truthy (u ''password'') then
        (case u ''password'' of Some (JStr s) \<Rightarrow> Some (trim s \<noteq> []) | _ \<Rightarrow> None)
      else Some False)"

definition getProfile :: "env \<Rightarrow> database \<Rightarrow> request \<Rightarrow> response \<times> database" where
  "getProfile ev db req =
     (case map_option (select_without secret_fields) (findById db (user_id req)) of
        None \<Rightarrow> (AppError ''User not found.'' 404, db)
      | Some user \<Rightarrow>
          (case has_password user of
             None \<Rightarrow> (Thrown, db)
           | Some hasPassword \<Rightarrow>
               (case work_duration user of
                  None \<Rightarrow> (Thrown, db)
                | Some wd \<Rightarrow>
                    (Json 200 (success [(''data'', Some (obj [(''user'', Some (obj
                       (profile_fields (user_id req) user @
                        [(''expectedWorkDuration'', Some wd),
                         (''hasPassword'', Some (JBool hasPassword)),
                         (''googleId'', user ''googleId'')])))]))]), db))))"

subsection \<open>updateProfile\<close>

definition allowed :: "string list" where
  "allowed = [''fullname'', ''username'', ''email'', ''avatar'', ''skills'', ''about'',
     ''experience'', ''yearOfExperience'', ''availability'', ''expectedWorkDuration'']"

text \<open>The loop over \<open>filtered.skills\<close>: the first value without a skill document ends it.\<close>

fun skills_loop :: "env \<Rightarrow> database \<Rightarrow> json list \<Rightarrow> response option" where
  "skills_loop ev db [] = None"
| "skills_loop ev db (val # vals) =
     (if Skill_findOne db val = None
      then Some (AppError (''Skill not found: '' @ to_string (Number_toString ev) val) 404)
      else skills_loop ev db vals)"

text \<open>Step 1 of \<open>updateProfile\<close>; \<open>None\<close> when the handler goes on.\<close>

definition validate_skills :: "env \<Rightarrow> database \<Rightarrow> doc \<Rightarrow> response option" where
  "validate_skills ev db filtered =
     (if truthy (filtered ''skills'') then
        (case as_array (filtered ''skills'') of
           None \<Rightarrow> Some (AppError ''Skills must be an array of skill values.'' 400)
         | Some vals \<Rightarrow> skills_loop ev db vals)
      else None)"

text \<open>Step 3 of \<open>updateProfile\<close>; \<open>None\<close> when the handler goes on.\<close>

definition validate_expectedWorkDuration :: "env \<Rightarrow> doc \<Rightarrow> response option" where
  "validate_expectedWorkDuration ev filtered =
     (if truthy (filtered ''expectedWorkDuration'') then
        (case filtered ''expectedWorkDuration'' of
           None \<Rightarrow> None
         | Some w \<Rightarrow>
             (case (new_Date ev (get_prop w ''startDate''), new_Date ev (get_prop w ''endDate'')) of
                (Some s, Some e) \<Rightarrow>
                  (if s > e
                   then Some (AppError ''Start date must be before or equal to end date.'' 400)
                   else None)
              | _ \<Rightarrow> Some (AppError ''Invalid start or end date.'' 400)))
      else None)"

definition updateProfile :: "env \<Rightarrow> database \<Rightarrow> request \<Rightarrow> response \<times> database" where
  "updateProfile ev db req =
     (if truthy (body req ''password'') \<or> truthy (body req ''role'')
      then (AppError ''This route is not for password or role updates.'' 400, db)
      else
        let filtered = body req |` set allowed in
        case validate_skills ev db filtered of
          Some err \<Rightarrow> (err, db)
        | None \<Rightarrow>
            (case validate_expectedWorkDuration ev filtered of
               Some err \<Rightarrow> (err, db)
             | None \<Rightarrow>
                 (case findByIdAndUpdate db (user_id req) filtered of
                    (None, db') \<Rightarrow> (AppError ''User not found.'' 404, db')
                  | (Some u, db') \<Rightarrow>
                      (let updated = select_without secret_fields u in
                       case work_duration updated of
                         None \<Rightarrow> (Thrown, db')
                       | Some wd \<Rightarrow>
                           (Json 200 (success [(''data'', Some (obj [(''user'', Some (obj
                              (profile_fields (user_id req) updated @
                               [(''expectedWorkDuration'', Some wd)])))]))]), db')))))"

subsection \<open>changePassword and deactivateMe\<close>

definition changePassword :: "env \<Rightarrow> database \<Rightarrow> request \<Rightarrow> response \<times> database" where
  "changePassword ev db req =
     (let currentPassword = body req ''currentPassword'';
          newPassword = body req ''newPassword'';
          passwordConfirm = body req ''passwordConfirm'' in
      if \<not> truthy currentPassword \<or> \<not> truthy newPassword \<or> \<not> truthy passwordConfirm
      then (AppError ''All three fields are required.'' 400, db)
      else
        case findById db (user_id req) of
          None \<Rightarrow> (AppError ''User not found.'' 404, db)
        | Some user \<Rightarrow>
            if \<not> correctPassword ev currentPassword (user ''password'')
            then (AppError ''Your current password is incorrect.'' 401, db)
            else if \<not> strict_eq newPassword passwordConfirm
            then (AppError ''New passwords do not match.'' 400, db)
            else
              (Json 200 (success [(''token'', Some (JStr (jwt_sign ev (user_id req))))]),
               save db (user_id req)
                 (user(''password'' := newPassword,
                       ''passwordChangedAt'' := Some (JNum (of_int (Date_now ev)))))))"

definition deactivateMe :: "env \<Rightarrow> database \<Rightarrow> request \<Rightarrow> response \<times> database" where
  "deactivateMe ev db req =
     (case findByIdAndUpdate db (user_id req)
             [''isDeleted'' \<mapsto> JBool True, ''deletedAt'' \<mapsto> JNum (of_int (Date_now ev))] of
        (u, db') \<Rightarrow> (Json 204 (success [(''data'', Some JNull)]), db'))"

subsection \<open>findUsersByEmails\<close>

definition error_json :: "string \<Rightarrow> json" where
  "error_json msg = obj [(''status'', Some (JStr ''error'')), (''message'', Some (JStr msg))]"

text \<open>
  The query \<^verbatim>\<open>{ email: { $in: emails }, isDeleted: false }\<close> on one document.
\<close>

definition email_in :: "json list \<Rightarrow> doc \<Rightarrow> bool" where
  "email_in emails d =
     ((case d ''email'' of None \<Rightarrow> False | Some v \<Rightarrow> v \<in> set emails)
      \<and> d ''isDeleted'' = Some (JBool False))"

definition found_user :: "string \<times> doc \<Rightarrow> json" where
  "found_user = (\<lambda>(i, user).
     obj [(''userId'', Some (JStr i)),
          (''email'', user ''email''),
          (''username'', user ''username''),
          (''fullname'', Some (or_else (user ''fullname'') (JStr [])))])"

definition findUsersByEmails :: "env \<Rightarrow> database \<Rightarrow> request \<Rightarrow> response \<times> database" where
  "findUsersByEmails ev db req =
     (case as_array (body req ''emails'') of
        None \<Rightarrow> (Json 400 (error_json ''Email list is required and must be an array.''), db)
      | Some emails \<Rightarrow>
          if emails = []
          then (Json 400 (error_json ''Email list is required and must be an array.''), db)
          else
            let invalidEmails =
                  filter (\<lambda>email. \<not> emailRegex_test (Number_toString ev) email) emails in
            if invalidEmails \<noteq> []
            then (Json 400 (error_json (''Email is invalid: '' @ array_join (Number_toString ev) '', '' invalidEmails)), db)
            else if js_includes (map Some emails) (user_email req)
            then (Json 400 (error_json ''You cannot invite yourself.''), db)
            else
              let users = map (\<lambda>(i, d). (i, select_only [''email'', ''username'', ''fullname''] d))
                            (find_users db (email_in emails));
                  foundEmails = map (\<lambda>(i, user). user ''email'') users;
                  notFoundEmails = filter (\<lambda>email. \<not> js_includes foundEmails (Some email)) emails
              in (Json 200 (success [(''data'', Some (obj
                    [(''foundUsers'', Some (JArr (map found_user users))),
                     (''notFoundEmails'', Some (JArr notFoundEmails))]))]), db))"

subsection \<open>User administration\<close>

definition is_admin :: "request \<Rightarrow> bool" where
  "is_admin req = (user_role req = Some (JStr ''adminSystem''))"

definition not_deleted :: "doc \<Rightarrow> bool" where
  "not_deleted d = (d ''isDeleted'' = Some (JBool False))"

definition listed_user :: "string \<times> doc \<Rightarrow> json" where
  "listed_user = (\<lambda>(i, u).
     obj [(''id'', Some (JStr i)),
          (''fullname'', Some (or_else (u ''fullname'') (JStr []))),
          (''username'', Some (or_else (u ''username'') (JStr []))),
          (''email'', u ''email''),
          (''role'', u ''role''),
          (''skills'', Some (or_else (u ''skills'') (JArr [])))])"

definition getAllUsers :: "env \<Rightarrow> database \<Rightarrow> request \<Rightarrow> response \<times> database" where
  "getAllUsers ev db req =
     (if \<not> is_admin req then (AppError ''Admin access required.'' 403, db)
      else
        let users = map (\<lambda>(i, d). (i, populate_skills ev (select_without secret_fields d)))
                      (find_users db not_deleted)
        in (Json 200 (success
              [(''results'', Some (JNum (of_nat (length users)))),
               (''data'', Some (obj [(''users'', Some (JArr (map listed_user users)))]))]), db))"

definition allowedFields :: "string list" where
  "allowedFields = [''role'', ''isDeleted'']"

definition updateUserById :: "env \<Rightarrow> database \<Rightarrow> request \<Rightarrow> response \<times> database" where
  "updateUserById ev db req =
     (if \<not> is_admin req then (AppError ''Admin access required.'' 403, db)
      else if \<not> ObjectId_isValid ev (params_id req)
      then (AppError ''Invalid user ID format.'' 400, db)
      else if params_id req = user_id req \<and> truthy (body req ''role'')
              \<and> body req ''role'' \<noteq> Some (JStr ''adminSystem'')
      then (AppError ''You cannot change your own role.'' 400, db)
      else
        let filteredBody = body req |` set allowedFields in
        case findByIdAndUpdate db (params_id req) filteredBody of
          (None, db') \<Rightarrow> (AppError ''User not found.'' 404, db')
        | (Some u, db') \<Rightarrow>
            (let updatedUser = populate_skills ev (select_without secret_fields u) in
             (Json 200 (success [(''data'', Some (obj [(''user'', Some (obj
                [(''id'', Some (JStr (params_id req))),
                 (''fullname'', Some (or_else (updatedUser ''fullname'') (JStr []))),
                 (''username'', Some (or_else (updatedUser ''username'') (JStr []))),
                 (''email'', updatedUser ''email''),
                 (''role'', updatedUser ''role''),
                 (''isDeleted'', updatedUser ''isDeleted''),
                 (''skills'', Some (or_else (updatedUser ''skills'') (JArr [])))]))]))]), db')))"

definition deleteUserById :: "env \<Rightarrow> database \<Rightarrow> request \<Rightarrow> response \<times> database" where
  "deleteUserById ev db req =
     (if \<not> is_admin req then (AppError ''Admin access required.'' 403, db)
      else if \<not> ObjectId_isValid ev (params_id req)
      then (AppError ''Invalid user ID format.'' 400, db)
      else
        case findById db (params_id req) of
          None \<Rightarrow> (AppError ''User not found.'' 404, db)
        | Some user \<Rightarrow>
            if user ''role'' = Some (JStr ''adminSystem'')
            then (AppError ''Cannot delete another admin user.'' 400, db)
            else (Json 200 (success [(''message'', Some (JStr ''User deleted successfully.''))]),
                  findByIdAndDelete db (params_id req)))"

definition getUserById :: "env \<Rightarrow> database \<Rightarrow> request \<Rightarrow> response \<times> database" where
  "getUserById ev db req =
     (if \<not> ObjectId_isValid ev (params_id req) then (AppError ''Invalid user ID.'' 400, db)
      else
        case map_option (\<lambda>d. populate_skills ev (select_without secret_fields d))
               (findById db (params_id req)) of
          None \<Rightarrow> (AppError ''User not found.'' 404, db)
        | Some user \<Rightarrow>
            (Json 200 (obj
               [(''success'', Some (JBool True)),
                (''data'', Some (obj [(''user'', Some (obj
                   (profile_fields (params_id req) user @
                    [(''expectedWorkDuration'',
                        Some (or_else (user ''expectedWorkDuration'')
                          (JObj [(''min'', JNum 0), (''max'', JNum 0), (''unit'', JStr ''hours'')]))),
                     (''createdAt'', user ''createdAt'')])))]))]), db))"

section \<open>Reading a response\<close>

text \<open>
  The properties below speak about a response through these readers: its status code
  (500 stands for the answer of the error middleware to an error that was thrown),
  and the user objects, found users and unmatched e-mails a JSON response carries.
\<close>

fun status_of :: "response \<Rightarrow> nat" where
  "status_of (AppError msg code) = code"
| "status_of (Json code v) = code"
| "status_of Thrown = 500"

fun json_of :: "response \<Rightarrow> jsval" where
  "json_of (Json code v) = Some v"
| "json_of _ = None"

definition path :: "jsval \<Rightarrow> string \<Rightarrow> jsval" where
  "path v k = (case v of None \<Rightarrow> None | Some j \<Rightarrow> get_prop j k)"

definition elements :: "jsval \<Rightarrow> json list" where
  "elements v = (case as_array v of None \<Rightarrow> [] | Some xs \<Rightarrow> xs)"

definition users_of :: "response \<Rightarrow> json list" where
  "users_of r =
     (case path (path (json_of r) ''data'') ''user'' of
        Some u \<Rightarrow> [u]
      | None \<Rightarrow> elements (path (path (json_of r) ''data'') ''users''))"

definition foundUsers_of :: "response \<Rightarrow> json list" where
  "foundUsers_of r = elements (path (path (json_of r) ''data'') ''foundUsers'')"

definition notFoundEmails_of :: "response \<Rightarrow> json list" where
  "notFoundEmails_of r = elements (path (path (json_of r) ''data'') ''notFoundEmails'')"

text \<open>A user that is not soft-deleted holds this e-mail address.\<close>

definition active_email :: "database \<Rightarrow> string \<Rightarrow> bool" where
  "active_email db e =
     list_ex (\<lambda>(i, d). d ''email'' = Some (JStr e) \<and> d ''isDeleted'' = Some (JBool False)) (User db)"

text \<open>
  The users that the query of \<open>findUsersByEmails\<close> returns for a list of addresses,
  with the selected fields.
\<close>

definition matching_users :: "database \<Rightarrow> json list \<Rightarrow> (string \<times> doc) list" where
  "matching_users db emails =
     map (\<lambda>(i, d). (i, select_only [''email'', ''username'', ''fullname''] d))
       (find_users db (email_in emails))"


text \<open>
  Two properties every stored collection of users has: no two documents share an
  \<open>_id\<close>, and every \<open>_id\<close> passes the driver's identifier test.
\<close>

definition unique_ids :: "database \<Rightarrow> bool" where
  "unique_ids db = distinct (map fst (User db))"

definition ids_valid :: "env \<Rightarrow> database \<Rightarrow> bool" where
  "ids_valid ev db = list_all (\<lambda>(i, d). ObjectId_isValid ev i) (User db)"

text \<open>The document \<open>i\<close> is stored and marked as deleted.\<close>

definition soft_deleted :: "database \<Rightarrow> string \<Rightarrow> bool" where
  "soft_deleted db i =
     (case findById db i of None \<Rightarrow> False | Some d \<Rightarrow> d ''isDeleted'' = Some (JBool True))"

text \<open>No other document holds the e-mail address of the document \<open>i\<close>.\<close>

definition email_unique_to :: "database \<Rightarrow> string \<Rightarrow> bool" where
  "email_unique_to db i =
     list_all (\<lambda>(j, d). j = i \<or> d ''email'' \<noteq> Option.bind (findById db i) (\<lambda>u. u ''email'')) (User db)"

text \<open>The database with the three secret fields erased from every user document.\<close>

definition redact :: "database \<Rightarrow> database" where
  "redact db = db\<lparr>User := map (\<lambda>(i, d). (i, select_without secret_fields d)) (User db)\<rparr>"

section \<open>A small installation\<close>

text \<open>
  An environment, two skills and three users, on which the properties are exercised:
  an administrator, a member, and a member who has soft-deleted the account. The
  number printer of the environment is right on the integers below \<open>10^21\<close>; the
  examples print no number.
\<close>

definition sample_env :: env where
  "sample_env =
     \<lparr>correctPassword = (\<lambda>candidate stored. candidate = stored),
      jwt_sign = (\<lambda>i. ''jwt:'' @ i),
      Date_now = 1700000000000,
      ObjectId_isValid =
        (\<lambda>s. length s = 24 \<and> list_all (\<lambda>c. c \<in> set ''0123456789abcdefABCDEF'') s),
      Date_parse = (\<lambda>s. if s = ''2025-01-01'' then Some 1735689600000
                          else if s = ''2025-02-01'' then Some 1738368000000 else None),
      Number_toString = (\<lambda>n. show_int \<lfloor>n\<rfloor>),
      populate = (\<lambda>v. v)\<rparr>"

definition alice_id :: string where
  "alice_id = ''64b000000000000000000001''"

definition bob_id :: string where
  "bob_id = ''64b000000000000000000002''"

definition carol_id :: string where
  "carol_id = ''64b000000000000000000003''"

definition alice :: doc where
  "alice = [''fullname'' \<mapsto> JStr ''Alice'', ''username'' \<mapsto> JStr ''alice'',
            ''email'' \<mapsto> JStr ''alice@x.io'', ''password'' \<mapsto> JStr ''pw-alice'',
            ''role'' \<mapsto> JStr ''adminSystem'', ''isDeleted'' \<mapsto> JBool False,
            ''expectedWorkDuration'' \<mapsto>
               JObj [(''startDate'', JStr ''2025-01-01''), (''endDate'', JStr ''2025-02-01'')]]"

definition bob :: doc where
  "bob = [''fullname'' \<mapsto> JStr ''Bob'', ''username'' \<mapsto> JStr ''bob'',
          ''email'' \<mapsto> JStr ''bob@x.io'', ''password'' \<mapsto> JStr ''pw-bob'',
          ''passwordResetToken'' \<mapsto> JStr ''reset-bob'',
          ''role'' \<mapsto> JStr ''userSystem'', ''isDeleted'' \<mapsto> JBool False,
          ''skills'' \<mapsto> JArr [JStr ''react''],
          ''expectedWorkDuration'' \<mapsto>
             JObj [(''startDate'', JStr ''2025-01-01''), (''endDate'', JStr ''2025-02-01'')]]"

definition carol :: doc where
  "carol = [''fullname'' \<mapsto> JStr ''Carol'', ''username'' \<mapsto> JStr ''carol'',
            ''email'' \<mapsto> JStr ''carol@x.io'', ''password'' \<mapsto> JStr ''pw-carol'',
            ''role'' \<mapsto> JStr ''userSystem'', ''isDeleted'' \<mapsto> JBool True,
            ''expectedWorkDuration'' \<mapsto> JObj []]"

definition sample_db :: database where
  "sample_db =
     \<lparr>User = [(alice_id, alice), (bob_id, bob), (carol_id, carol)],
      Skill = [[''value'' \<mapsto> JStr ''react''], [''value'' \<mapsto> JStr ''node'']]\<rparr>"

text \<open>A request of Alice and a request of Bob, to be completed by parameters and a body.\<close>

definition as_alice :: "string \<Rightarrow> (string \<rightharpoonup> json) \<Rightarrow> request" where
  "as_alice i b =
     \<lparr>user_id = alice_id, user_role = Some (JStr ''adminSystem''),
      user_email = Some (JStr ''alice@x.io''), params_id = i, body = b\<rparr>"

definition as_bob :: "string \<Rightarrow> (string \<rightharpoonup> json) \<Rightarrow> request" where
  "as_bob i b =
     \<lparr>user_id = bob_id, user_role = Some (JStr ''userSystem''),
      user_email = Some (JStr ''bob@x.io''), params_id = i, body = b\<rparr>"




section \<open>Unfolding the model\<close>

lemmas query_defs = findById_def findByIdAndUpdate_def findByIdAndDelete_def find_users_def
  Skill_findOne_def save_def select_without_def select_only_def secret_fields_def
  populate_skills_def

lemmas json_defs = obj_def success_def error_json_def profile_fields_def or_else_def
  default_availability_def work_duration_def has_password_def List.map_filter_def
  found_user_def listed_user_def as_array_def

lemmas sample_defs = sample_env_def sample_db_def alice_def bob_def carol_def
  alice_id_def bob_id_def carol_id_def as_alice_def as_bob_def

section \<open>Facts about the store\<close>

lemma map_of_replace_doc:
  "map_of (replace_doc i d xs) j = (if j = i \<and> map_of xs i \<noteq> None then Some d else map_of xs j)"
  by (induction xs) auto

lemma findById_save:
  "findById (save db i d) j = (if j = i \<and> findById db i \<noteq> None then Some d else findById db j)"
  by (simp add: findById_def save_def map_of_replace_doc)

lemma keys_replace_doc: "map fst (replace_doc i d xs) = map fst xs"
  by (induction xs) auto

lemma in_replace_doc:
  "distinct (map fst xs) \<Longrightarrow> (j, d) \<in> set (replace_doc i d' xs) \<Longrightarrow>
     (j = i \<and> d = d') \<or> (j \<noteq> i \<and> (j, d) \<in> set xs)"
proof (induction xs)
  case Nil
  then show ?case by simp
next
  case (Cons x xs)
  obtain k e where x: "x = (k, e)" by (cases x)
  show ?case
  proof (cases "i = k")
    case True
    with Cons.prems x have "(j, d) = (k, d') \<or> (j, d) \<in> set xs" by simp
    moreover have "(k, d) \<notin> set xs"
      using Cons.prems(1) x by (force simp: image_iff)
    ultimately show ?thesis using True x by auto
  next
    case False
    with Cons x show ?thesis by auto
  qed
qed

lemma valid_id_of_stored:
  assumes "ids_valid ev db" and "findById db i = Some d"
  shows "ObjectId_isValid ev i"
proof -
  from assms(2) have "(i, d) \<in> set (User db)"
    by (simp add: findById_def map_of_SomeD)
  with assms(1) show ?thesis
    by (auto simp: ids_valid_def list_all_iff)
qed

lemma findById_sample:
  "findById sample_db alice_id = Some alice"
  "findById sample_db bob_id = Some bob"
  "findById sample_db carol_id = Some carol"
  by (simp_all add: findById_def sample_db_def alice_id_def bob_id_def carol_id_def)

lemma sample_db_wf: "unique_ids sample_db" "ids_valid sample_env sample_db"
  by (simp_all add: unique_ids_def ids_valid_def sample_db_def sample_env_def
      alice_id_def bob_id_def carol_id_def)

section \<open>The administrator gate\<close>

text \<open>
  Claim C1, as the code has it. \<open>getAllUsers\<close>, \<open>updateUserById\<close> and
  \<open>deleteUserById\<close> begin with the test \<open>req.user.role !== 'adminSystem'\<close>: for a
  caller who is not an administrator each of them answers 403 whatever the database
  holds, and leaves the database as it was. \<open>getUserById\<close> has no such test: it gives a
  caller who is not an administrator the answer it gives an administrator.
\<close>

theorem admin_gate:
  assumes "\<not> is_admin req"
  shows "getAllUsers ev db req = (AppError ''Admin access required.'' 403, db)
       \<and> updateUserById ev db req = (AppError ''Admin access required.'' 403, db)
       \<and> deleteUserById ev db req = (AppError ''Admin access required.'' 403, db)
       \<and> getUserById ev db req =
           getUserById ev db (req\<lparr>user_role := Some (JStr ''adminSystem'')\<rparr>)"
  using assms
  by (simp add: getAllUsers_def updateUserById_def deleteUserById_def getUserById_def
      split: option.splits)

text \<open>Bob, a member, calls the three gated handlers.\<close>

theorem admin_gate_witness:
  "\<not> is_admin (as_bob bob_id Map.empty)
   \<and> getAllUsers sample_env sample_db (as_bob bob_id Map.empty) =
       (AppError ''Admin access required.'' 403, sample_db)
   \<and> updateUserById sample_env sample_db (as_bob bob_id Map.empty) =
       (AppError ''Admin access required.'' 403, sample_db)
   \<and> deleteUserById sample_env sample_db (as_bob bob_id Map.empty) =
       (AppError ''Admin access required.'' 403, sample_db)"
proof -
  have h: "\<not> is_admin (as_bob bob_id Map.empty)"
    by (simp add: is_admin_def as_bob_def)
  from admin_gate [OF h, of sample_env sample_db] h show ?thesis by simp
qed

text \<open>
  Claim C1 as stated fails for \<open>getUserById\<close>: Bob, who is not an administrator, asks
  for Alice's document and receives it with status 200.
\<close>

theorem getUserById_not_gated:
  "\<not> is_admin (as_bob alice_id Map.empty)
   \<and> getUserById sample_env sample_db (as_bob alice_id Map.empty) =
     (Json 200 (JObj
        [(''success'', JBool True),
         (''data'', JObj [(''user'', JObj
            [(''id'', JStr alice_id),
             (''fullname'', JStr ''Alice''), (''username'', JStr ''alice''),
             (''email'', JStr ''alice@x.io''), (''role'', JStr ''adminSystem''),
             (''avatar'', JNull), (''skills'', JArr []), (''about'', JStr []),
             (''experience'', JStr []), (''yearOfExperience'', JNum 0),
             (''availability'',
                JObj [(''status'', JStr ''available''), (''willingToJoin'', JBool True)]),
             (''expectedWorkDuration'',
                JObj [(''startDate'', JStr ''2025-01-01''), (''endDate'', JStr ''2025-02-01'')])])])]),
      sample_db)"
  by (simp add: is_admin_def getUserById_def query_defs json_defs sample_defs restrict_map_def)

section \<open>Changing the password\<close>

text \<open>
  Claim C2. For a caller whose document exists, \<open>changePassword\<close> goes through four
  steps in this order. A field is missing when the test \<open>!field\<close> holds (it is absent,
  or \<open>null\<close>, an empty string, zero or \<open>false\<close>): if one of the three is, the answer
  is 400. Otherwise, if \<open>correctPassword\<close> rejects the current password, the answer is
  401, whether or not the new password and its confirmation agree. Otherwise, if the
  two differ (the test \<open>!==\<close>), the answer is 400. Otherwise the answer is 200 with
  the token signed for the caller's \<open>_id\<close>, the caller's document holds the new
  password and \<open>passwordChangedAt\<close>, and no other document has changed. The three
  errors leave the database as it was.
\<close>

theorem changePassword_steps:
  assumes "findById db (user_id req) = Some user"
  shows "(\<not> truthy (body req ''currentPassword'') \<or> \<not> truthy (body req ''newPassword'')
            \<or> \<not> truthy (body req ''passwordConfirm'')
          \<longrightarrow> changePassword ev db req = (AppError ''All three fields are required.'' 400, db))
       \<and> (truthy (body req ''currentPassword'') \<and> truthy (body req ''newPassword'')
            \<and> truthy (body req ''passwordConfirm'')
          \<longrightarrow>
            (\<not> correctPassword ev (body req ''currentPassword'') (user ''password'')
             \<longrightarrow> changePassword ev db req = (AppError ''Your current password is incorrect.'' 401, db))
          \<and> (correctPassword ev (body req ''currentPassword'') (user ''password'')
               \<and> \<not> strict_eq (body req ''newPassword'') (body req ''passwordConfirm'')
             \<longrightarrow> changePassword ev db req = (AppError ''New passwords do not match.'' 400, db))
          \<and> (correctPassword ev (body req ''currentPassword'') (user ''password'')
               \<and> strict_eq (body req ''newPassword'') (body req ''passwordConfirm'')
             \<longrightarrow> fst (changePassword ev db req) =
                   Json 200 (JObj [(''status'', JStr ''success''),
                                   (''token'', JStr (jwt_sign ev (user_id req)))])
               \<and> findById (snd (changePassword ev db req)) (user_id req) =
                   Some (user(''password'' := body req ''newPassword'',
                              ''passwordChangedAt'' \<mapsto> JNum (of_int (Date_now ev))))
               \<and> (\<forall>j. j \<noteq> user_id req \<longrightarrow>
                     findById (snd (changePassword ev db req)) j = findById db j)))"
  using assms
  by (simp add: changePassword_def Let_def findById_save success_def obj_def List.map_filter_def)

text \<open>
  Bob sends, in turn, a body without the confirmation, a wrong current password
  together with a confirmation that does not match, a right current password with a
  confirmation that does not match, and a well-formed change.
\<close>

theorem changePassword_steps_witness:
  "findById sample_db bob_id = Some bob
   \<and> changePassword sample_env sample_db
        (as_bob [] [''currentPassword'' \<mapsto> JStr ''pw-bob'', ''newPassword'' \<mapsto> JStr ''n3w''])
       = (AppError ''All three fields are required.'' 400, sample_db)
   \<and> changePassword sample_env sample_db
        (as_bob [] [''currentPassword'' \<mapsto> JStr ''guess'', ''newPassword'' \<mapsto> JStr ''n3w'',
                    ''passwordConfirm'' \<mapsto> JStr ''other''])
       = (AppError ''Your current password is incorrect.'' 401, sample_db)
   \<and> changePassword sample_env sample_db
        (as_bob [] [''currentPassword'' \<mapsto> JStr ''pw-bob'', ''newPassword'' \<mapsto> JStr ''n3w'',
                    ''passwordConfirm'' \<mapsto> JStr ''other''])
       = (AppError ''New passwords do not match.'' 400, sample_db)
   \<and> fst (changePassword sample_env sample_db
        (as_bob [] [''currentPassword'' \<mapsto> JStr ''pw-bob'', ''newPassword'' \<mapsto> JStr ''n3w'',
                    ''passwordConfirm'' \<mapsto> JStr ''n3w'']))
       = Json 200 (JObj [(''status'', JStr ''success''),
                         (''token'', JStr (''jwt:'' @ bob_id))])
   \<and> findById (snd (changePassword sample_env sample_db
        (as_bob [] [''currentPassword'' \<mapsto> JStr ''pw-bob'', ''newPassword'' \<mapsto> JStr ''n3w'',
                    ''passwordConfirm'' \<mapsto> JStr ''n3w'']))) bob_id
       = Some (bob(''password'' \<mapsto> JStr ''n3w'', ''passwordChangedAt'' \<mapsto> JNum 1700000000000))"
proof -
  have h: "findById sample_db (user_id (as_bob i b)) = Some bob" for i b
    by (simp add: as_bob_def findById_sample)
  have p: "bob ''password'' = Some (JStr ''pw-bob'')"
    by (simp add: bob_def)
  note t = changePassword_steps [OF h, of _ _ sample_env]
  show ?thesis
    using t [of "[]" "[''currentPassword'' \<mapsto> JStr ''pw-bob'', ''newPassword'' \<mapsto> JStr ''n3w'']"]
      t [of "[]" "[''currentPassword'' \<mapsto> JStr ''guess'', ''newPassword'' \<mapsto> JStr ''n3w'',
                    ''passwordConfirm'' \<mapsto> JStr ''other'']"]
      t [of "[]" "[''currentPassword'' \<mapsto> JStr ''pw-bob'', ''newPassword'' \<mapsto> JStr ''n3w'',
                    ''passwordConfirm'' \<mapsto> JStr ''other'']"]
      t [of "[]" "[''currentPassword'' \<mapsto> JStr ''pw-bob'', ''newPassword'' \<mapsto> JStr ''n3w'',
                    ''passwordConfirm'' \<mapsto> JStr ''n3w'']"]
    by (simp add: findById_sample p as_bob_def sample_env_def strict_eq_def)
qed

section \<open>Looking users up by e-mail\<close>

lemma found_user_email: "get_prop (found_user (i, u)) ''email'' = u ''email''"
  by (cases "u ''email''"; cases "u ''username''")
     (simp_all add: found_user_def obj_def List.map_filter_def)

lemma found_user_userId: "get_prop (found_user (i, u)) ''userId'' = Some (JStr i)"
  by (simp add: found_user_def obj_def List.map_filter_def)

lemma foundUsers_of_success:
  "foundUsers_of (Json c (success [(''data'', Some (obj
      [(''foundUsers'', Some (JArr xs)), (''notFoundEmails'', Some (JArr ys))]))])) = xs"
  by (simp add: foundUsers_of_def path_def elements_def as_array_def success_def obj_def
      List.map_filter_def)

lemma notFoundEmails_of_success:
  "notFoundEmails_of (Json c (success [(''data'', Some (obj
      [(''foundUsers'', Some (JArr xs)), (''notFoundEmails'', Some (JArr ys))]))])) = ys"
  by (simp add: notFoundEmails_of_def path_def elements_def as_array_def success_def obj_def
      List.map_filter_def)

lemma foundUsers_of_error: "foundUsers_of (Json c (error_json m)) = []"
  by (simp add: foundUsers_of_def path_def elements_def as_array_def error_json_def obj_def
      List.map_filter_def)

lemma js_includes_primitive: "primitive v \<Longrightarrow> js_includes xs v = (v \<in> set xs)"
  by (auto simp: js_includes_def list_ex_iff strict_eq_def)

lemma select_only_email:
  "select_only [''email'', ''username'', ''fullname''] d ''email'' = d ''email''"
  by (simp add: select_only_def)

text \<open>The e-mail addresses of the documents that the query returns.\<close>

lemma matching_users_emails:
  "(\<lambda>(i, user). user ''email'') ` set (matching_users db emails) =
     {Some v | v. v \<in> set emails \<and>
        (\<exists>(i, d) \<in> set (User db). d ''email'' = Some v \<and> d ''isDeleted'' = Some (JBool False))}"
proof -
  have "(\<lambda>(i, user). user ''email'') ` set (matching_users db emails)
      = (\<lambda>(i, d). d ''email'') ` {(i, d) \<in> set (User db). email_in emails d}"
    by (force simp: matching_users_def find_users_def select_only_email image_iff)
  also have "\<dots> = {Some v | v. v \<in> set emails \<and>
        (\<exists>(i, d) \<in> set (User db). d ''email'' = Some v \<and> d ''isDeleted'' = Some (JBool False))}"
    by (force simp: email_in_def image_iff split: option.splits)
  finally show ?thesis .
qed

lemma found_users_emails:
  "(\<lambda>u. get_prop u ''email'') ` found_user ` set us = (\<lambda>(i, user). user ''email'') ` set us"
proof -
  have "(\<lambda>u. get_prop u ''email'') \<circ> found_user = (\<lambda>(i, user). user ''email'')"
    by (rule ext) (simp add: found_user_email split: prod.splits)
  then show ?thesis
    by (metis image_comp)
qed

text \<open>The answer to a list of strings that passes the three checks.\<close>

lemma findUsersByEmails_valid:
  assumes "body req ''emails'' = Some (JArr (map JStr es))"
      and "es \<noteq> []"
      and "\<forall>e \<in> set es. matches emailRegex e"
      and "\<forall>e \<in> set es. user_email req \<noteq> Some (JStr e)"
  shows "findUsersByEmails ev db req =
     (Json 200 (success [(''data'', Some (obj
        [(''foundUsers'', Some (JArr (map found_user (matching_users db (map JStr es))))),
         (''notFoundEmails'', Some (JArr
            (filter (\<lambda>email. \<not> js_includes
                (map (\<lambda>(i, user). user ''email'') (matching_users db (map JStr es))) (Some email))
              (map JStr es))))]))]), db)"
proof -
  from assms(3) have valid:
    "filter (\<lambda>email. \<not> emailRegex_test (Number_toString ev) email) (map JStr es) = []"
    by (auto simp: filter_empty_conv emailRegex_test_def)
  from assms(4) have other: "\<not> js_includes (map Some (map JStr es)) (user_email req)"
    by (auto simp: js_includes_def list_ex_iff strict_eq_def)
  show ?thesis
    using assms(1,2) valid other
    by (simp add: findUsersByEmails_def as_array_def Let_def matching_users_def)
qed

lemma found_emails:
  assumes "body req ''emails'' = Some (JArr (map JStr es))"
      and "es \<noteq> []"
      and "\<forall>e \<in> set es. matches emailRegex e"
      and "\<forall>e \<in> set es. user_email req \<noteq> Some (JStr e)"
  shows "(\<lambda>u. get_prop u ''email'') ` set (foundUsers_of (fst (findUsersByEmails ev db req)))
           = (\<lambda>(i, user). user ''email'') ` set (matching_users db (map JStr es))"
  by (simp add: findUsersByEmails_valid [OF assms] foundUsers_of_success found_users_emails)

lemma found_iff_active:
  assumes "body req ''emails'' = Some (JArr (map JStr es))"
      and "es \<noteq> []"
      and "\<forall>e \<in> set es. matches emailRegex e"
      and "\<forall>e \<in> set es. user_email req \<noteq> Some (JStr e)"
      and "e \<in> set es"
  shows "(Some (JStr e) \<in> (\<lambda>u. get_prop u ''email'')
            ` set (foundUsers_of (fst (findUsersByEmails ev db req)))) = active_email db e"
  unfolding found_emails [OF assms(1-4)] matching_users_emails
  using assms(5) by (auto simp: active_email_def list_ex_iff)

lemma notFound_iff_inactive:
  assumes "body req ''emails'' = Some (JArr (map JStr es))"
      and "es \<noteq> []"
      and "\<forall>e \<in> set es. matches emailRegex e"
      and "\<forall>e \<in> set es. user_email req \<noteq> Some (JStr e)"
      and "e \<in> set es"
  shows "(JStr e \<in> set (notFoundEmails_of (fst (findUsersByEmails ev db req))))
           = (\<not> active_email db e)"
proof -
  let ?fe = "map (\<lambda>(i, user). user ''email'') (matching_users db (map JStr es))"
  have nf: "notFoundEmails_of (fst (findUsersByEmails ev db req)) =
      filter (\<lambda>email. \<not> js_includes ?fe (Some email)) (map JStr es)"
    by (simp add: findUsersByEmails_valid [OF assms(1-4)] notFoundEmails_of_success)
  have "(JStr e \<in> set (notFoundEmails_of (fst (findUsersByEmails ev db req))))
          = (\<not> js_includes ?fe (Some (JStr e)))"
    unfolding nf using assms(5) by auto
  also have "\<dots> = (Some (JStr e) \<notin> set ?fe)"
    by (simp add: js_includes_primitive)
  also have "\<dots> = (\<not> active_email db e)"
    using assms(5) by (auto simp: matching_users_emails active_email_def list_ex_iff)
  finally show ?thesis .
qed

text \<open>
  Claim C3. A request carries a non-empty array of strings, each of which matches the
  e-mail pattern and none of which is the caller's address. Then the answer is 200, the
  database is as it was, and every address of the request is in exactly one of the two
  outputs: among the e-mail addresses of \<open>foundUsers\<close> when a user who is not deleted
  holds it, and in \<open>notFoundEmails\<close> when no such user does. Neither output holds an
  address that the request did not carry.
\<close>

theorem findUsersByEmails_partition:
  assumes "body req ''emails'' = Some (JArr (map JStr es))"
      and "es \<noteq> []"
      and "\<forall>e \<in> set es. matches emailRegex e"
      and "\<forall>e \<in> set es. user_email req \<noteq> Some (JStr e)"
  shows "status_of (fst (findUsersByEmails ev db req)) = 200
       \<and> snd (findUsersByEmails ev db req) = db
       \<and> (\<forall>e \<in> set es.
            (Some (JStr e) \<in> (\<lambda>u. get_prop u ''email'')
                ` set (foundUsers_of (fst (findUsersByEmails ev db req))))
               = active_email db e
          \<and> (JStr e \<in> set (notFoundEmails_of (fst (findUsersByEmails ev db req))))
               = (\<not> active_email db e))
       \<and> (\<forall>u \<in> set (foundUsers_of (fst (findUsersByEmails ev db req))).
            get_prop u ''email'' \<in> Some ` JStr ` set es)
       \<and> set (notFoundEmails_of (fst (findUsersByEmails ev db req))) \<subseteq> JStr ` set es"
proof -
  let ?R = "fst (findUsersByEmails ev db req)"
  note r = findUsersByEmails_valid [OF assms, of ev db]
  have 1: "status_of ?R = 200" by (simp add: r)
  have 2: "snd (findUsersByEmails ev db req) = db" by (simp add: r)
  have 3: "\<forall>e \<in> set es.
            (Some (JStr e) \<in> (\<lambda>u. get_prop u ''email'') ` set (foundUsers_of ?R))
               = active_email db e
          \<and> (JStr e \<in> set (notFoundEmails_of ?R)) = (\<not> active_email db e)"
    using found_iff_active [OF assms] notFound_iff_inactive [OF assms] by blast
  have 4: "\<forall>u \<in> set (foundUsers_of ?R). get_prop u ''email'' \<in> Some ` JStr ` set es"
  proof
    fix u assume "u \<in> set (foundUsers_of ?R)"
    then have "get_prop u ''email'' \<in> (\<lambda>u. get_prop u ''email'') ` set (foundUsers_of ?R)"
      by (rule imageI)
    then have "get_prop u ''email''
        \<in> (\<lambda>(i, user). user ''email'') ` set (matching_users db (map JStr es))"
      unfolding found_emails [OF assms] .
    then show "get_prop u ''email'' \<in> Some ` JStr ` set es"
      unfolding matching_users_emails by auto
  qed
  have 5: "set (notFoundEmails_of ?R) \<subseteq> JStr ` set es"
    by (auto simp: r notFoundEmails_of_success)
  from 1 2 3 4 5 show ?thesis by blast
qed

lemma regex_samples:
  "matches emailRegex ''alice@x.io''"
  "matches emailRegex ''bob@x.io''"
  "matches emailRegex ''carol@x.io''"
  "matches emailRegex ''dan@x.io''"
  by (simp_all add: emailRegex_def is_space_def)

text \<open>
  Bob asks for Alice (active), Carol (soft-deleted) and Dan (unknown): Alice is found,
  Carol and Dan are not.
\<close>

theorem findUsersByEmails_partition_witness:
  "body (as_bob [] [''emails'' \<mapsto> JArr (map JStr [''alice@x.io'', ''carol@x.io'', ''dan@x.io''])])
      ''emails'' = Some (JArr (map JStr [''alice@x.io'', ''carol@x.io'', ''dan@x.io'']))
   \<and> matches emailRegex ''alice@x.io'' \<and> matches emailRegex ''carol@x.io''
   \<and> matches emailRegex ''dan@x.io''
   \<and> user_email (as_bob [] [''emails'' \<mapsto> JArr (map JStr [''alice@x.io'', ''carol@x.io'', ''dan@x.io''])])
        = Some (JStr ''bob@x.io'')
   \<and> active_email sample_db ''alice@x.io''
   \<and> \<not> active_email sample_db ''carol@x.io''
   \<and> \<not> active_email sample_db ''dan@x.io''
   \<and> status_of (fst (findUsersByEmails sample_env sample_db
        (as_bob [] [''emails'' \<mapsto> JArr (map JStr [''alice@x.io'', ''carol@x.io'', ''dan@x.io''])]))) = 200
   \<and> Some (JStr ''alice@x.io'') \<in> (\<lambda>u. get_prop u ''email'') ` set (foundUsers_of (fst
        (findUsersByEmails sample_env sample_db
        (as_bob [] [''emails'' \<mapsto> JArr (map JStr [''alice@x.io'', ''carol@x.io'', ''dan@x.io''])]))))
   \<and> JStr ''alice@x.io'' \<notin> set (notFoundEmails_of (fst
        (findUsersByEmails sample_env sample_db
        (as_bob [] [''emails'' \<mapsto> JArr (map JStr [''alice@x.io'', ''carol@x.io'', ''dan@x.io''])]))))
   \<and> JStr ''carol@x.io'' \<in> set (notFoundEmails_of (fst
        (findUsersByEmails sample_env sample_db
        (as_bob [] [''emails'' \<mapsto> JArr (map JStr [''alice@x.io'', ''carol@x.io'', ''dan@x.io''])]))))
   \<and> JStr ''dan@x.io'' \<in> set (notFoundEmails_of (fst
        (findUsersByEmails sample_env sample_db
        (as_bob [] [''emails'' \<mapsto> JArr (map JStr [''alice@x.io'', ''carol@x.io'', ''dan@x.io''])]))))"
proof -
  let ?es = "[''alice@x.io'', ''carol@x.io'', ''dan@x.io'']"
  let ?r = "as_bob [] [''emails'' \<mapsto> JArr (map JStr ?es)]"
  have 1: "body ?r ''emails'' = Some (JArr (map JStr ?es))"
    by (simp add: as_bob_def)
  have 2: "?es \<noteq> []" by simp
  have 3: "\<forall>e \<in> set ?es. matches emailRegex e"
    by (simp add: regex_samples)
  have u: "user_email ?r = Some (JStr ''bob@x.io'')"
    by (simp add: as_bob_def)
  then have 4: "\<forall>e \<in> set ?es. user_email ?r \<noteq> Some (JStr e)"
    by simp
  have a: "active_email sample_db ''alice@x.io''" "\<not> active_email sample_db ''carol@x.io''"
    "\<not> active_email sample_db ''dan@x.io''"
    by (simp_all add: active_email_def sample_db_def alice_def bob_def carol_def)
  from findUsersByEmails_partition [OF 1 2 3 4, of sample_env sample_db] 1 u a regex_samples
  show ?thesis by simp
qed

text \<open>
  Claim C7. When the array of a request holds strings that all match the e-mail
  pattern and one of them is the caller's own address, \<open>findUsersByEmails\<close> answers
  400 with the message \<open>You cannot invite yourself.\<close> The answer is the same for every
  database, which is returned as it was: no user is looked up.
\<close>

theorem self_invite_rejected:
  assumes "body req ''emails'' = Some (JArr (map JStr es))"
      and "\<forall>e \<in> set es. matches emailRegex e"
      and "user_email req = Some (JStr me)"
      and "me \<in> set es"
  shows "findUsersByEmails ev db req =
           (Json 400 (JObj [(''status'', JStr ''error''),
                            (''message'', JStr ''You cannot invite yourself.'')]), db)"
proof -
  from assms(4) have ne: "map JStr es \<noteq> []" by auto
  from assms(2) have valid:
    "filter (\<lambda>email. \<not> emailRegex_test (Number_toString ev) email) (map JStr es) = []"
    by (auto simp: filter_empty_conv emailRegex_test_def)
  from assms(3,4) have self: "js_includes (map Some (map JStr es)) (user_email req)"
    by (auto simp: js_includes_def list_ex_iff strict_eq_def)
  show ?thesis
    using assms(1) ne valid self
    by (simp add: findUsersByEmails_def as_array_def Let_def error_json_def obj_def
        List.map_filter_def)
qed

text \<open>Bob asks for Alice and for himself.\<close>

theorem self_invite_rejected_witness:
  "body (as_bob [] [''emails'' \<mapsto> JArr (map JStr [''alice@x.io'', ''bob@x.io''])]) ''emails''
      = Some (JArr (map JStr [''alice@x.io'', ''bob@x.io'']))
   \<and> matches emailRegex ''alice@x.io'' \<and> matches emailRegex ''bob@x.io''
   \<and> user_email (as_bob [] [''emails'' \<mapsto> JArr (map JStr [''alice@x.io'', ''bob@x.io''])])
      = Some (JStr ''bob@x.io'')
   \<and> findUsersByEmails sample_env sample_db
        (as_bob [] [''emails'' \<mapsto> JArr (map JStr [''alice@x.io'', ''bob@x.io''])])
      = (Json 400 (JObj [(''status'', JStr ''error''),
                         (''message'', JStr ''You cannot invite yourself.'')]), sample_db)"
proof -
  let ?r = "as_bob [] [''emails'' \<mapsto> JArr (map JStr [''alice@x.io'', ''bob@x.io''])]"
  have 1: "body ?r ''emails'' = Some (JArr (map JStr [''alice@x.io'', ''bob@x.io'']))"
    by (simp add: as_bob_def)
  have 2: "\<forall>e \<in> set [''alice@x.io'', ''bob@x.io'']. matches emailRegex e"
    by (simp add: regex_samples)
  have 3: "user_email ?r = Some (JStr ''bob@x.io'')"
    by (simp add: as_bob_def)
  have 4: "''bob@x.io'' \<in> set [''alice@x.io'', ''bob@x.io'']"
    by simp
  from self_invite_rejected [OF 1 2 3 4, of sample_env sample_db] 1 regex_samples 3
  show ?thesis by simp
qed

section \<open>Updating the profile\<close>

lemma skills_loop_find:
  "skills_loop ev db vals =
     (case find (\<lambda>v. Skill_findOne db v = None) vals of
        None \<Rightarrow> None
      | Some v \<Rightarrow> Some (AppError (''Skill not found: '' @ to_string (Number_toString ev) v) 404))"
  by (induction vals) auto




text \<open>
  What \<open>updateProfile\<close> leaves in the database: nothing new, or the caller's document
  overridden by the allowed fields of the body.
\<close>

lemma updateProfile_db:
  "snd (updateProfile ev db req) = db
   \<or> (\<exists>d. findById db (user_id req) = Some d
          \<and> snd (updateProfile ev db req) = save db (user_id req) (d ++ (body req |` set allowed)))"
  by (auto simp: updateProfile_def Let_def findByIdAndUpdate_def split: option.splits)

lemma falsy_password_ignored:
  assumes "\<not> truthy (body req ''password'')" and "\<not> truthy (body req ''role'')"
  shows "updateProfile ev db req =
           updateProfile ev db (req\<lparr>body := (body req)(''password'' := None, ''role'' := None)\<rparr>)"
proof -
  let ?req' = "req\<lparr>body := (body req)(''password'' := None, ''role'' := None)\<rparr>"
  have f: "body ?req' |` set allowed = body req |` set allowed"
    by (rule ext) (simp add: restrict_map_def allowed_def)
  have u: "user_id ?req' = user_id req"
    by simp
  have t: "\<not> truthy (body ?req' ''password'')" "\<not> truthy (body ?req' ''role'')"
    by simp_all
  show ?thesis
    by (simp only: updateProfile_def f u assms t simp_thms if_False)
qed

text \<open>
  Claim C4, as the code has it. The test is \<open>req.body.password || req.body.role\<close>: a
  request whose \<open>password\<close> or \<open>role\<close> is truthy is rejected with 400 and the database
  is as it was. A request whose \<open>password\<close> and \<open>role\<close> are absent or falsy (\<open>null\<close>,
  an empty string, zero, \<open>false\<close>) is treated as the same request without the two
  fields. In every case, a field outside the allow-list keeps its value in every
  document, and no document but the caller's changes.
\<close>

theorem updateProfile_allow_list:
  "(truthy (body req ''password'') \<or> truthy (body req ''role'')
      \<longrightarrow> updateProfile ev db req =
            (AppError ''This route is not for password or role updates.'' 400, db))
   \<and> (\<not> truthy (body req ''password'') \<and> \<not> truthy (body req ''role'')
      \<longrightarrow> updateProfile ev db req =
            updateProfile ev db
              (req\<lparr>body := (body req)(''password'' := None, ''role'' := None)\<rparr>))
   \<and> (\<forall>i k. k \<notin> set allowed \<longrightarrow>
          map_option (\<lambda>d. d k) (findById (snd (updateProfile ev db req)) i)
            = map_option (\<lambda>d. d k) (findById db i))
   \<and> (\<forall>i. i \<noteq> user_id req \<longrightarrow>
          findById (snd (updateProfile ev db req)) i = findById db i)"
proof (intro conjI allI impI)
  assume "truthy (body req ''password'') \<or> truthy (body req ''role'')"
  then show "updateProfile ev db req =
      (AppError ''This route is not for password or role updates.'' 400, db)"
    by (simp add: updateProfile_def)
next
  assume "\<not> truthy (body req ''password'') \<and> \<not> truthy (body req ''role'')"
  then show "updateProfile ev db req =
      updateProfile ev db (req\<lparr>body := (body req)(''password'' := None, ''role'' := None)\<rparr>)"
    using falsy_password_ignored by blast
next
  fix i k assume k: "k \<notin> set allowed"
  from updateProfile_db [of ev db req]
  show "map_option (\<lambda>d. d k) (findById (snd (updateProfile ev db req)) i)
            = map_option (\<lambda>d. d k) (findById db i)"
  proof
    assume "snd (updateProfile ev db req) = db"
    then show ?thesis by simp
  next
    assume "\<exists>d. findById db (user_id req) = Some d
          \<and> snd (updateProfile ev db req) = save db (user_id req) (d ++ (body req |` set allowed))"
    then obtain d where d: "findById db (user_id req) = Some d"
      and s: "snd (updateProfile ev db req) = save db (user_id req) (d ++ (body req |` set allowed))"
      by blast
    from k have "(d ++ (body req |` set allowed)) k = d k"
      by (simp add: map_add_def)
    with d s show ?thesis
      by (simp add: findById_save)
  qed
next
  fix i assume i: "i \<noteq> user_id req"
  from updateProfile_db [of ev db req]
  show "findById (snd (updateProfile ev db req)) i = findById db i"
    using i by (auto simp: findById_save)
qed

text \<open>
  Bob asks for the administrator's role and is rejected; Bob sends \<open>isDeleted\<close>, which
  is outside the allow-list, beside a new name, and his \<open>isDeleted\<close> stays \<open>false\<close>
  while Alice's document stays as it was.
\<close>

theorem updateProfile_allow_list_witness:
  "truthy (body (as_bob [] [''role'' \<mapsto> JStr ''adminSystem'', ''fullname'' \<mapsto> JStr ''Mallory'']) ''role'')
   \<and> updateProfile sample_env sample_db
        (as_bob [] [''role'' \<mapsto> JStr ''adminSystem'', ''fullname'' \<mapsto> JStr ''Mallory''])
      = (AppError ''This route is not for password or role updates.'' 400, sample_db)
   \<and> ''isDeleted'' \<notin> set allowed
   \<and> map_option (\<lambda>d. d ''isDeleted'')
        (findById (snd (updateProfile sample_env sample_db
           (as_bob [] [''fullname'' \<mapsto> JStr ''Bobby'', ''isDeleted'' \<mapsto> JBool True]))) bob_id)
      = Some (Some (JBool False))
   \<and> findById (snd (updateProfile sample_env sample_db
           (as_bob [] [''fullname'' \<mapsto> JStr ''Bobby'', ''isDeleted'' \<mapsto> JBool True]))) alice_id
      = Some alice"
proof -
  have k: "''isDeleted'' \<notin> set allowed"
    by (simp add: allowed_def)
  have n: "alice_id \<noteq> user_id (as_bob i b)" for i b
    by (simp add: as_bob_def alice_id_def bob_id_def)
  have d: "bob ''isDeleted'' = Some (JBool False)"
    by (simp add: bob_def)
  from updateProfile_allow_list
        [of "as_bob [] [''role'' \<mapsto> JStr ''adminSystem'', ''fullname'' \<mapsto> JStr ''Mallory'']"
            sample_env sample_db]
       updateProfile_allow_list
        [of "as_bob [] [''fullname'' \<mapsto> JStr ''Bobby'', ''isDeleted'' \<mapsto> JBool True]"
            sample_env sample_db]
       k n d
  show ?thesis
    by (simp add: findById_sample as_bob_def)
qed

text \<open>
  Claim C4 as stated fails when the field is present and falsy: Bob's body contains a
  \<open>password\<close> field, the empty string, beside a new name; the answer is 200 and his
  stored name has changed.
\<close>

theorem empty_password_not_rejected:
  "body (as_bob [] [''password'' \<mapsto> JStr [], ''fullname'' \<mapsto> JStr ''Mallory'']) ''password''
      = Some (JStr [])
   \<and> status_of (fst (updateProfile sample_env sample_db
        (as_bob [] [''password'' \<mapsto> JStr [], ''fullname'' \<mapsto> JStr ''Mallory'']))) = 200
   \<and> Option.bind (findById sample_db bob_id) (\<lambda>d. d ''fullname'') = Some (JStr ''Bob'')
   \<and> Option.bind (findById (snd (updateProfile sample_env sample_db
        (as_bob [] [''password'' \<mapsto> JStr [], ''fullname'' \<mapsto> JStr ''Mallory'']))) bob_id)
        (\<lambda>d. d ''fullname'') = Some (JStr ''Mallory'')"
  by (simp add: updateProfile_def validate_skills_def validate_expectedWorkDuration_def
      allowed_def Let_def query_defs json_defs sample_defs restrict_map_def map_add_def)











section \<open>Deleting a user\<close>

text \<open>
  Claim C8. An administrator asks \<open>deleteUserById\<close> for a stored user whose role is
  \<open>adminSystem\<close>: the answer is 400 and the database is as it was, so the document is
  still there.
\<close>

theorem delete_admin_rejected:
  assumes "is_admin req"
      and "ids_valid ev db"
      and "findById db (params_id req) = Some user"
      and "user ''role'' = Some (JStr ''adminSystem'')"
  shows "deleteUserById ev db req = (AppError ''Cannot delete another admin user.'' 400, db)"
  using assms valid_id_of_stored [OF assms(2,3)]
  by (simp add: deleteUserById_def)

text \<open>Alice, the administrator, asks for her own document to be deleted.\<close>

theorem delete_admin_rejected_witness:
  "is_admin (as_alice alice_id Map.empty)
   \<and> ids_valid sample_env sample_db
   \<and> findById sample_db (params_id (as_alice alice_id Map.empty)) = Some alice
   \<and> alice ''role'' = Some (JStr ''adminSystem'')
   \<and> deleteUserById sample_env sample_db (as_alice alice_id Map.empty)
      = (AppError ''Cannot delete another admin user.'' 400, sample_db)"
proof -
  have 1: "is_admin (as_alice alice_id Map.empty)"
    by (simp add: is_admin_def as_alice_def)
  have 3: "findById sample_db (params_id (as_alice alice_id Map.empty)) = Some alice"
    by (simp add: as_alice_def findById_sample)
  have 4: "alice ''role'' = Some (JStr ''adminSystem'')"
    by (simp add: alice_def)
  from delete_admin_rejected [OF 1 sample_db_wf(2) 3 4] 1 sample_db_wf(2) 3 4
  show ?thesis by simp
qed

section \<open>Secret fields\<close>

lemma get_prop_obj_absent: "k \<notin> fst ` set kvs \<Longrightarrow> get_prop (obj kvs) k = None"
proof -
  assume k: "k \<notin> fst ` set kvs"
  have "fst ` set (List.map_filter (\<lambda>(k, v). map_option (Pair k) v) kvs) \<subseteq> fst ` set kvs"
    by (force simp: List.map_filter_def image_iff)
  with k have "k \<notin> fst ` set (List.map_filter (\<lambda>(k, v). map_option (Pair k) v) kvs)"
    by blast
  then show ?thesis
    by (simp add: obj_def map_of_eq_None_iff)
qed

lemma get_prop_obj_first: "get_prop (obj ((k, Some v) # kvs)) k = Some v"
  by (simp add: obj_def List.map_filter_def)

lemma users_of_user:
  "users_of (Json c (success [(''data'', Some (obj [(''user'', Some u)]))])) = [u]"
  by (simp add: users_of_def path_def success_def obj_def List.map_filter_def)

lemma users_of_user_flag:
  "users_of (Json c (obj [(''success'', Some b), (''data'', Some (obj [(''user'', Some u)]))])) = [u]"
  by (simp add: users_of_def path_def obj_def List.map_filter_def)

lemma users_of_AppError: "users_of (AppError m c) = []"
  by (simp add: users_of_def path_def elements_def as_array_def)

lemma users_of_Thrown: "users_of Thrown = []"
  by (simp add: users_of_def path_def elements_def as_array_def)

lemma users_of_users:
  "users_of (Json c (success [(''results'', Some n),
      (''data'', Some (obj [(''users'', Some (JArr us))]))])) = us"
  by (simp add: users_of_def path_def elements_def as_array_def success_def obj_def
      List.map_filter_def)

lemma secret_not_profile_field:
  "k \<in> set secret_fields \<Longrightarrow> k \<notin> fst ` set (profile_fields i u)"
  by (auto simp: secret_fields_def profile_fields_def)

lemma listed_user_no_secret:
  "k \<in> set secret_fields \<Longrightarrow> get_prop (listed_user (i, u)) k = None"
  unfolding listed_user_def prod.case
  by (rule get_prop_obj_absent) (auto simp: secret_fields_def)

lemma listed_user_id: "get_prop (listed_user (i, u)) ''id'' = Some (JStr i)"
  by (simp add: listed_user_def get_prop_obj_first)

lemma getProfile_users:
  "\<forall>x \<in> set (users_of (fst (getProfile ev db req))). \<forall>k \<in> set secret_fields. get_prop x k = None"
proof -
  have "get_prop (obj (profile_fields i u @ [(''expectedWorkDuration'', a), (''hasPassword'', b),
            (''googleId'', c)])) k = None" if "k \<in> set secret_fields" for i u a b c k
    using that secret_not_profile_field [OF that, of i u]
    by (intro get_prop_obj_absent) (auto simp: secret_fields_def)
  then show ?thesis
    by (auto simp: getProfile_def users_of_user users_of_AppError users_of_Thrown
        split: option.splits)
qed

lemma updateProfile_users:
  "\<forall>x \<in> set (users_of (fst (updateProfile ev db req))). \<forall>k \<in> set secret_fields. get_prop x k = None"
proof -
  have a: "get_prop (obj (profile_fields i u @ [(''expectedWorkDuration'', a)])) k = None"
    if "k \<in> set secret_fields" for i u a k
    using that secret_not_profile_field [OF that, of i u]
    by (intro get_prop_obj_absent) (auto simp: secret_fields_def)
  have b: "users_of r = []" if "validate_skills ev db f = Some r" for f r
    using that
    by (auto simp: validate_skills_def skills_loop_find users_of_AppError
        split: if_splits option.splits)
  have c: "users_of r = []" if "validate_expectedWorkDuration ev f = Some r" for f r
    using that
    by (auto simp: validate_expectedWorkDuration_def users_of_AppError
        split: if_splits option.splits)
  show ?thesis
    using a b c
    by (auto simp: updateProfile_def Let_def users_of_user users_of_AppError
        users_of_Thrown findByIdAndUpdate_def split: option.splits)
qed

lemma getAllUsers_users:
  "\<forall>x \<in> set (users_of (fst (getAllUsers ev db req))). \<forall>k \<in> set secret_fields. get_prop x k = None"
  by (auto simp: getAllUsers_def Let_def users_of_users users_of_AppError listed_user_no_secret)

lemma getUserById_users:
  "\<forall>x \<in> set (users_of (fst (getUserById ev db req))). \<forall>k \<in> set secret_fields. get_prop x k = None"
proof -
  have "get_prop (obj (profile_fields i u @ [(''expectedWorkDuration'', a), (''createdAt'', b)])) k
          = None" if "k \<in> set secret_fields" for i u a b k
    using that secret_not_profile_field [OF that, of i u]
    by (intro get_prop_obj_absent) (auto simp: secret_fields_def)
  then show ?thesis
    by (auto simp: getUserById_def users_of_user_flag users_of_AppError split: option.splits)
qed

text \<open>Erasing the secret fields from the stored documents changes no answer.\<close>

lemma select_without_idem: "select_without fs (select_without fs d) = select_without fs d"
  by (simp add: select_without_def)

lemma select_without_add:
  "select_without fs (select_without fs d ++ f) = select_without fs (d ++ f)"
  by (rule ext) (simp add: select_without_def restrict_map_def map_add_def)

lemma findById_redact:
  "findById (redact db) i = map_option (select_without secret_fields) (findById db i)"
proof -
  have "map_of (map (\<lambda>(i, d). (i, select_without secret_fields d)) xs) i
        = map_option (select_without secret_fields) (map_of xs i)" for xs
    by (induction xs) auto
  then show ?thesis
    by (simp add: findById_def redact_def)
qed

lemma Skill_redact: "Skill (redact db) = Skill db"
  by (simp add: redact_def)

lemma not_deleted_select: "not_deleted (select_without secret_fields d) = not_deleted d"
  by (simp add: not_deleted_def select_without_def secret_fields_def)

lemma find_users_redact:
  "find_users (redact db) not_deleted =
     map (\<lambda>(i, d). (i, select_without secret_fields d)) (find_users db not_deleted)"
  by (simp add: find_users_def redact_def filter_map comp_def case_prod_unfold not_deleted_select)

lemma getProfile_redact: "fst (getProfile ev (redact db) req) = fst (getProfile ev db req)"
  by (simp add: getProfile_def findById_redact select_without_idem option.map_comp comp_def
      split: option.splits)

lemma getUserById_redact: "fst (getUserById ev (redact db) req) = fst (getUserById ev db req)"
  by (simp add: getUserById_def findById_redact select_without_idem option.map_comp comp_def
      split: option.splits)

lemma getAllUsers_redact: "fst (getAllUsers ev (redact db) req) = fst (getAllUsers ev db req)"
  by (simp add: getAllUsers_def Let_def find_users_redact select_without_idem comp_def
      case_prod_unfold)

lemma validate_skills_redact: "validate_skills ev (redact db) f = validate_skills ev db f"
proof -
  have "skills_loop ev (redact db) vals = skills_loop ev db vals" for vals
    by (induction vals) (simp_all add: Skill_findOne_def Skill_redact)
  then show ?thesis
    by (simp add: validate_skills_def split: option.splits)
qed

lemma updateProfile_redact: "fst (updateProfile ev (redact db) req) = fst (updateProfile ev db req)"
  by (simp add: updateProfile_def Let_def validate_skills_redact findByIdAndUpdate_def
      findById_redact select_without_add split: option.splits)

text \<open>
  Claim C9. Whatever the database holds, no user object in a response of
  \<open>getProfile\<close>, \<open>updateProfile\<close>, \<open>getAllUsers\<close> or \<open>getUserById\<close> has a property
  \<open>password\<close>, \<open>passwordResetToken\<close> or \<open>passwordResetExpires\<close>; and the response is
  the one the handler gives when the three fields are erased from every stored
  document, so that nothing in it depends on their values.
\<close>

theorem secrets_never_returned:
  "(\<forall>x \<in> set (users_of (fst (getProfile ev db req))). \<forall>k \<in> set secret_fields. get_prop x k = None)
 \<and> (\<forall>x \<in> set (users_of (fst (updateProfile ev db req))). \<forall>k \<in> set secret_fields. get_prop x k = None)
 \<and> (\<forall>x \<in> set (users_of (fst (getAllUsers ev db req))). \<forall>k \<in> set secret_fields. get_prop x k = None)
 \<and> (\<forall>x \<in> set (users_of (fst (getUserById ev db req))). \<forall>k \<in> set secret_fields. get_prop x k = None)
 \<and> fst (getProfile ev (redact db) req) = fst (getProfile ev db req)
 \<and> fst (updateProfile ev (redact db) req) = fst (updateProfile ev db req)
 \<and> fst (getAllUsers ev (redact db) req) = fst (getAllUsers ev db req)
 \<and> fst (getUserById ev (redact db) req) = fst (getUserById ev db req)"
  using getProfile_users [of ev db req] updateProfile_users [of ev db req]
    getAllUsers_users [of ev db req] getUserById_users [of ev db req]
    getProfile_redact [of ev db req] updateProfile_redact [of ev db req]
    getAllUsers_redact [of ev db req] getUserById_redact [of ev db req]
  by blast

text \<open>
  Bob, whose document holds a password and a reset token, reads his profile; Alice
  lists the users and reads Bob's document.
\<close>

theorem secrets_never_returned_witness:
  "bob ''password'' = Some (JStr ''pw-bob'')
   \<and> bob ''passwordResetToken'' = Some (JStr ''reset-bob'')
   \<and> status_of (fst (getProfile sample_env sample_db (as_bob bob_id Map.empty))) = 200
   \<and> length (users_of (fst (getProfile sample_env sample_db (as_bob bob_id Map.empty)))) = 1
   \<and> list_all (\<lambda>x. get_prop x ''password'' = None \<and> get_prop x ''passwordResetToken'' = None
                    \<and> get_prop x ''passwordResetExpires'' = None)
        (users_of (fst (getProfile sample_env sample_db (as_bob bob_id Map.empty))))
   \<and> length (users_of (fst (getAllUsers sample_env sample_db (as_alice [] Map.empty)))) = 2
   \<and> list_all (\<lambda>x. get_prop x ''password'' = None \<and> get_prop x ''passwordResetToken'' = None
                    \<and> get_prop x ''passwordResetExpires'' = None)
        (users_of (fst (getAllUsers sample_env sample_db (as_alice [] Map.empty))))
   \<and> fst (getUserById sample_env (redact sample_db) (as_alice bob_id Map.empty))
      = fst (getUserById sample_env sample_db (as_alice bob_id Map.empty))"
proof -
  have p: "bob ''password'' = Some (JStr ''pw-bob'')"
    "bob ''passwordResetToken'' = Some (JStr ''reset-bob'')"
    by (simp_all add: bob_def)
  have g: "status_of (fst (getProfile sample_env sample_db (as_bob bob_id Map.empty))) = 200
    \<and> length (users_of (fst (getProfile sample_env sample_db (as_bob bob_id Map.empty)))) = 1"
    by (simp add: getProfile_def users_of_user query_defs work_duration_def has_password_def
        sample_defs restrict_map_def)
  have a: "length (users_of (fst (getAllUsers sample_env sample_db (as_alice [] Map.empty)))) = 2"
    by (simp add: getAllUsers_def is_admin_def users_of_users find_users_def not_deleted_def
        Let_def sample_defs)
  from secrets_never_returned [of sample_env sample_db "as_bob bob_id Map.empty"]
       secrets_never_returned [of sample_env sample_db "as_alice [] Map.empty"]
       secrets_never_returned [of sample_env sample_db "as_alice bob_id Map.empty"]
       p g a
  show ?thesis
    by (simp add: list_all_iff secret_fields_def)
qed

section \<open>Soft deletion\<close>

lemma deactivateMe_db:
  "findById db (user_id req) = Some u \<Longrightarrow>
     snd (deactivateMe ev db req) =
       save db (user_id req)
         (u ++ [''isDeleted'' \<mapsto> JBool True, ''deletedAt'' \<mapsto> JNum (of_int (Date_now ev))])"
  by (simp add: deactivateMe_def findByIdAndUpdate_def)

text \<open>The documents of the database after the caller has deactivated the account.\<close>

lemma in_deactivated:
  assumes "unique_ids db" and "findById db (user_id req) = Some u"
      and "(j, d) \<in> set (User (snd (deactivateMe ev db req)))"
  shows "(j = user_id req \<and> d ''isDeleted'' = Some (JBool True))
       \<or> (j \<noteq> user_id req \<and> (j, d) \<in> set (User db))"
proof -
  from assms(3) have "(j, d) \<in> set (replace_doc (user_id req)
      (u ++ [''isDeleted'' \<mapsto> JBool True, ''deletedAt'' \<mapsto> JNum (of_int (Date_now ev))]) (User db))"
    by (simp add: deactivateMe_db [OF assms(2)] save_def)
  from in_replace_doc [OF _ this] assms(1) show ?thesis
    by (auto simp: unique_ids_def)
qed

lemma getAllUsers_ids:
  "x \<in> set (users_of (fst (getAllUsers ev db req))) \<Longrightarrow>
     \<exists>(i, d) \<in> set (User db). not_deleted d \<and> get_prop x ''id'' = Some (JStr i)"
  by (auto simp: getAllUsers_def Let_def users_of_users users_of_AppError find_users_def
      listed_user_id split: if_splits)

lemma findUsersByEmails_found:
  "set (foundUsers_of (fst (findUsersByEmails ev db req))) \<subseteq>
     (\<lambda>(i, d). found_user (i, select_only [''email'', ''username'', ''fullname''] d))
       ` {(i, d) \<in> set (User db). not_deleted d}"
proof -
  have "set (map found_user (map (\<lambda>(i, d). (i, select_only [''email'', ''username'', ''fullname''] d))
          (find_users db (email_in emails)))) \<subseteq>
     (\<lambda>(i, d). found_user (i, select_only [''email'', ''username'', ''fullname''] d))
       ` {(i, d) \<in> set (User db). not_deleted d}" for emails
    by (force simp: find_users_def email_in_def not_deleted_def image_iff)
  then show ?thesis
    by (simp add: findUsersByEmails_def Let_def foundUsers_of_success foundUsers_of_error
        split: option.splits)
qed

lemma findUsersByEmails_ids:
  assumes "x \<in> set (foundUsers_of (fst (findUsersByEmails ev db req)))"
  shows "\<exists>(i, d) \<in> set (User db). not_deleted d \<and> get_prop x ''userId'' = Some (JStr i)"
proof -
  from assms findUsersByEmails_found [of ev db req]
  obtain i d where "(i, d) \<in> set (User db)" "not_deleted d"
    and "x = found_user (i, select_only [''email'', ''username'', ''fullname''] d)"
    by auto
  then show ?thesis
    by (auto simp: found_user_userId intro!: bexI [of _ "(i, d)"])
qed

lemma getUserById_found:
  assumes "ObjectId_isValid ev (params_id req)" and "findById db (params_id req) = Some d"
  shows "\<exists>x. status_of (fst (getUserById ev db req)) = 200
           \<and> users_of (fst (getUserById ev db req)) = [x]
           \<and> get_prop x ''id'' = Some (JStr (params_id req))"
  using assms
  by (simp add: getUserById_def users_of_user_flag profile_fields_def get_prop_obj_first)

lemma deactivated_flag:
  assumes "findById db (user_id req) = Some u"
  shows "Option.bind (findById (snd (deactivateMe ev db req)) (user_id req))
           (\<lambda>d. d ''isDeleted'') = Some (JBool True)"
  using assms by (simp add: deactivateMe_db findById_save)

lemma deactivated_not_listed:
  assumes "unique_ids db" and "findById db (user_id req) = Some u"
      and "x \<in> set (users_of (fst (getAllUsers ev' (snd (deactivateMe ev db req)) r)))"
  shows "get_prop x ''id'' \<noteq> Some (JStr (user_id req))"
proof -
  from getAllUsers_ids [OF assms(3)] obtain i d
    where m: "(i, d) \<in> set (User (snd (deactivateMe ev db req)))"
      and n: "not_deleted d" and x: "get_prop x ''id'' = Some (JStr i)"
    by auto
  from in_deactivated [OF assms(1,2) m] n have "i \<noteq> user_id req"
    by (auto simp: not_deleted_def)
  with x show ?thesis by simp
qed

lemma deactivated_not_found:
  assumes "unique_ids db" and "findById db (user_id req) = Some u"
      and "x \<in> set (foundUsers_of (fst (findUsersByEmails ev' (snd (deactivateMe ev db req)) r)))"
  shows "get_prop x ''userId'' \<noteq> Some (JStr (user_id req))"
proof -
  from findUsersByEmails_ids [OF assms(3)] obtain i d
    where m: "(i, d) \<in> set (User (snd (deactivateMe ev db req)))"
      and n: "not_deleted d" and x: "get_prop x ''userId'' = Some (JStr i)"
    by auto
  from in_deactivated [OF assms(1,2) m] n have "i \<noteq> user_id req"
    by (auto simp: not_deleted_def)
  with x show ?thesis by simp
qed

lemma deactivated_email_inactive:
  assumes "unique_ids db" and "findById db (user_id req) = Some u"
      and "email_unique_to db (user_id req)" and "u ''email'' = Some (JStr e)"
  shows "\<not> active_email (snd (deactivateMe ev db req)) e"
proof
  assume "active_email (snd (deactivateMe ev db req)) e"
  then obtain j d where m: "(j, d) \<in> set (User (snd (deactivateMe ev db req)))"
    and e: "d ''email'' = Some (JStr e)" and a: "d ''isDeleted'' = Some (JBool False)"
    by (auto simp: active_email_def list_ex_iff)
  from in_deactivated [OF assms(1,2) m] a
  have j: "j \<noteq> user_id req" and o: "(j, d) \<in> set (User db)"
    by auto
  from assms(3) o j
  have "d ''email'' \<noteq> Option.bind (findById db (user_id req)) (\<lambda>u. u ''email'')"
    by (auto simp: email_unique_to_def list_all_iff)
  with assms(2,4) e show False by simp
qed

lemma getUserById_stored:
  assumes "ObjectId_isValid ev (params_id r)" and "findById db (params_id r) = Some d"
  shows "fst (getUserById ev db r) =
     Json 200 (obj
       [(''success'', Some (JBool True)),
        (''data'', Some (obj [(''user'', Some (obj
           (profile_fields (params_id r) (populate_skills ev (select_without secret_fields d)) @
            [(''expectedWorkDuration'',
                Some (or_else (d ''expectedWorkDuration'')
                  (JObj [(''min'', JNum 0), (''max'', JNum 0), (''unit'', JStr ''hours'')]))),
             (''createdAt'', d ''createdAt'')])))]))])"
  using assms
  by (simp add: getUserById_def populate_skills_def select_without_def secret_fields_def
      restrict_map_def)

lemma deactivated_still_readable:
  assumes "findById db (user_id req) = Some u" and "params_id r = user_id req"
  shows "fst (getUserById ev' (snd (deactivateMe ev db req)) r) = fst (getUserById ev' db r)"
proof -
  have f: "findById (snd (deactivateMe ev db req)) (params_id r) =
      Some (u ++ [''isDeleted'' \<mapsto> JBool True, ''deletedAt'' \<mapsto> JNum (of_int (Date_now ev))])"
    using assms by (simp add: deactivateMe_db findById_save)
  have g: "findById db (params_id r) = Some u"
    using assms by simp
  show ?thesis
    by (simp add: getUserById_def f g profile_fields_def populate_skills_def
        select_without_def secret_fields_def restrict_map_def map_add_def)
qed

lemma deactivated_state:
  assumes "unique_ids db" and "findById db (user_id req) = Some u"
  shows "unique_ids (snd (deactivateMe ev db req))"
    and "soft_deleted (snd (deactivateMe ev db req)) (user_id req)"
  using assms
  by (simp_all add: deactivateMe_db unique_ids_def save_def keys_replace_doc soft_deleted_def
      findById_save [unfolded save_def])

text \<open>In a database with distinct identifiers, a document marked as deleted is hidden.\<close>

lemma soft_deleted_hidden:
  assumes "unique_ids D" and "soft_deleted D i" and "(j, d) \<in> set (User D)" and "not_deleted d"
  shows "j \<noteq> i"
proof
  assume "j = i"
  with assms(1,3) have "findById D i = Some d"
    by (simp add: findById_def unique_ids_def)
  with assms(2,4) show False
    by (simp add: soft_deleted_def not_deleted_def)
qed

lemma soft_deleted_not_listed:
  assumes "unique_ids D" and "soft_deleted D i"
      and "x \<in> set (users_of (fst (getAllUsers ev' D r)))"
  shows "get_prop x ''id'' \<noteq> Some (JStr i)"
proof -
  from getAllUsers_ids [OF assms(3)] obtain j d
    where "(j, d) \<in> set (User D)" "not_deleted d" and x: "get_prop x ''id'' = Some (JStr j)"
    by auto
  with soft_deleted_hidden [OF assms(1,2)] have "j \<noteq> i" by blast
  with x show ?thesis by simp
qed

lemma soft_deleted_not_found:
  assumes "unique_ids D" and "soft_deleted D i"
      and "x \<in> set (foundUsers_of (fst (findUsersByEmails ev' D r)))"
  shows "get_prop x ''userId'' \<noteq> Some (JStr i)"
proof -
  from findUsersByEmails_ids [OF assms(3)] obtain j d
    where "(j, d) \<in> set (User D)" "not_deleted d" and x: "get_prop x ''userId'' = Some (JStr j)"
    by auto
  with soft_deleted_hidden [OF assms(1,2)] have "j \<noteq> i" by blast
  with x show ?thesis by simp
qed

text \<open>The three reading handlers leave the database as it was.\<close>

lemma readers_keep_db:
  "snd (getAllUsers ev db r) = db"
  "snd (findUsersByEmails ev db r) = db"
  "snd (getUserById ev db r) = db"
  by (simp_all add: getAllUsers_def findUsersByEmails_def getUserById_def Let_def
      split: option.splits)

text \<open>
  Claim C10. The stored identifiers are distinct and valid, and the caller's document
  \<open>u\<close> exists. After \<open>deactivateMe\<close> the document's \<open>isDeleted\<close> is \<open>true\<close>. The
  database it leaves is not changed by \<open>getAllUsers\<close>, \<open>findUsersByEmails\<close> or
  \<open>getUserById\<close>, so each later call of them sees it. In that database, and in every
  database with distinct identifiers in which the document is marked as deleted, no
  answer of \<open>getAllUsers\<close> lists the caller and no answer of \<open>findUsersByEmails\<close> has
  the caller among \<open>foundUsers\<close>, whoever asks. When no other document holds the
  caller's e-mail address, a request that carries it and passes the three checks gets
  it back in \<open>notFoundEmails\<close>. And \<open>getUserById\<close> for the caller's identifier gives
  the answer it gave before the deactivation: status 200 and the user built from the
  fields of \<open>u\<close>.
\<close>

theorem soft_deleted_user_visibility:
  assumes "unique_ids db" and "ids_valid ev db" and "findById db (user_id req) = Some u"
  shows "Option.bind (findById (snd (deactivateMe ev db req)) (user_id req))
           (\<lambda>d. d ''isDeleted'') = Some (JBool True)
       \<and> unique_ids (snd (deactivateMe ev db req))
       \<and> soft_deleted (snd (deactivateMe ev db req)) (user_id req)
       \<and> (\<forall>ev' r. snd (getAllUsers ev' (snd (deactivateMe ev db req)) r)
                   = snd (deactivateMe ev db req)
                \<and> snd (findUsersByEmails ev' (snd (deactivateMe ev db req)) r)
                   = snd (deactivateMe ev db req)
                \<and> snd (getUserById ev' (snd (deactivateMe ev db req)) r)
                   = snd (deactivateMe ev db req))
       \<and> (\<forall>ev' r. \<forall>x \<in> set (users_of (fst (getAllUsers ev' (snd (deactivateMe ev db req)) r))).
            get_prop x ''id'' \<noteq> Some (JStr (user_id req)))
       \<and> (\<forall>ev' r. \<forall>x \<in> set (foundUsers_of
                (fst (findUsersByEmails ev' (snd (deactivateMe ev db req)) r))).
            get_prop x ''userId'' \<noteq> Some (JStr (user_id req)))
       \<and> (\<forall>D ev' r. unique_ids D \<and> soft_deleted D (user_id req) \<longrightarrow>
            (\<forall>x \<in> set (users_of (fst (getAllUsers ev' D r))).
               get_prop x ''id'' \<noteq> Some (JStr (user_id req)))
            \<and> (\<forall>x \<in> set (foundUsers_of (fst (findUsersByEmails ev' D r))).
               get_prop x ''userId'' \<noteq> Some (JStr (user_id req))))
       \<and> (\<forall>ev' r es e.
            email_unique_to db (user_id req) \<and> u ''email'' = Some (JStr e) \<and> e \<in> set es
            \<and> body r ''emails'' = Some (JArr (map JStr es))
            \<and> (\<forall>a \<in> set es. matches emailRegex a)
            \<and> (\<forall>a \<in> set es. user_email r \<noteq> Some (JStr a))
            \<longrightarrow> JStr e \<in> set (notFoundEmails_of
                   (fst (findUsersByEmails ev' (snd (deactivateMe ev db req)) r))))
       \<and> (\<forall>ev' r. params_id r = user_id req \<longrightarrow>
            fst (getUserById ev' (snd (deactivateMe ev db req)) r) = fst (getUserById ev' db r))
       \<and> (\<forall>r. params_id r = user_id req \<longrightarrow>
            fst (getUserById ev (snd (deactivateMe ev db req)) r) =
              Json 200 (obj
                [(''success'', Some (JBool True)),
                 (''data'', Some (obj [(''user'', Some (obj
                    (profile_fields (user_id req)
                       (populate_skills ev (select_without secret_fields u)) @
                     [(''expectedWorkDuration'',
                         Some (or_else (u ''expectedWorkDuration'')
                           (JObj [(''min'', JNum 0), (''max'', JNum 0),
                                  (''unit'', JStr ''hours'')]))),
                      (''createdAt'', u ''createdAt'')])))]))]))"
proof (intro conjI allI impI ballI)
  show "Option.bind (findById (snd (deactivateMe ev db req)) (user_id req))
           (\<lambda>d. d ''isDeleted'') = Some (JBool True)"
    by (rule deactivated_flag [OF assms(3)])
next
  show "unique_ids (snd (deactivateMe ev db req))"
    by (rule deactivated_state [OF assms(1,3)])
next
  show "soft_deleted (snd (deactivateMe ev db req)) (user_id req)"
    by (rule deactivated_state [OF assms(1,3)])
next
  fix ev' r
  show "snd (getAllUsers ev' (snd (deactivateMe ev db req)) r) = snd (deactivateMe ev db req)"
    by (rule readers_keep_db)
next
  fix ev' r
  show "snd (findUsersByEmails ev' (snd (deactivateMe ev db req)) r)
          = snd (deactivateMe ev db req)"
    by (rule readers_keep_db)
next
  fix ev' r
  show "snd (getUserById ev' (snd (deactivateMe ev db req)) r) = snd (deactivateMe ev db req)"
    by (rule readers_keep_db)
next
  fix ev' r x
  assume "x \<in> set (users_of (fst (getAllUsers ev' (snd (deactivateMe ev db req)) r)))"
  then show "get_prop x ''id'' \<noteq> Some (JStr (user_id req))"
    by (rule deactivated_not_listed [OF assms(1,3)])
next
  fix ev' r x
  assume "x \<in> set (foundUsers_of (fst (findUsersByEmails ev' (snd (deactivateMe ev db req)) r)))"
  then show "get_prop x ''userId'' \<noteq> Some (JStr (user_id req))"
    by (rule deactivated_not_found [OF assms(1,3)])
next
  fix D :: database and ev' :: env and r :: request and x
  assume h: "unique_ids D \<and> soft_deleted D (user_id req)"
    and x: "x \<in> set (users_of (fst (getAllUsers ev' D r)))"
  from h x show "get_prop x ''id'' \<noteq> Some (JStr (user_id req))"
    using soft_deleted_not_listed by blast
next
  fix D :: database and ev' :: env and r :: request and x
  assume h: "unique_ids D \<and> soft_deleted D (user_id req)"
    and x: "x \<in> set (foundUsers_of (fst (findUsersByEmails ev' D r)))"
  from h x show "get_prop x ''userId'' \<noteq> Some (JStr (user_id req))"
    using soft_deleted_not_found by blast
next
  fix ev' :: env and r :: request and es e
  assume h: "email_unique_to db (user_id req) \<and> u ''email'' = Some (JStr e) \<and> e \<in> set es
            \<and> body r ''emails'' = Some (JArr (map JStr es))
            \<and> (\<forall>a \<in> set es. matches emailRegex a)
            \<and> (\<forall>a \<in> set es. user_email r \<noteq> Some (JStr a))"
  then have ne: "es \<noteq> []" by auto
  from h have i: "\<not> active_email (snd (deactivateMe ev db req)) e"
    using deactivated_email_inactive [OF assms(1,3)] by blast
  from h ne notFound_iff_inactive [of r es e ev' "snd (deactivateMe ev db req)"]
  have "(JStr e \<in> set (notFoundEmails_of
                   (fst (findUsersByEmails ev' (snd (deactivateMe ev db req)) r))))
        = (\<not> active_email (snd (deactivateMe ev db req)) e)"
    by blast
  with i show "JStr e \<in> set (notFoundEmails_of
                   (fst (findUsersByEmails ev' (snd (deactivateMe ev db req)) r)))"
    by simp
next
  fix ev' :: env and r :: request assume "params_id r = user_id req"
  then show "fst (getUserById ev' (snd (deactivateMe ev db req)) r) = fst (getUserById ev' db r)"
    by (rule deactivated_still_readable [OF assms(3)])
next
  fix r :: request assume p: "params_id r = user_id req"
  have v: "ObjectId_isValid ev (params_id r)"
    using valid_id_of_stored [OF assms(2,3)] p by simp
  have g: "findById db (params_id r) = Some u"
    using assms(3) p by simp
  from deactivated_still_readable [OF assms(3) p, of ev ev] getUserById_stored [OF v g] p
  show "fst (getUserById ev (snd (deactivateMe ev db req)) r) =
              Json 200 (obj
                [(''success'', Some (JBool True)),
                 (''data'', Some (obj [(''user'', Some (obj
                    (profile_fields (user_id req)
                       (populate_skills ev (select_without secret_fields u)) @
                     [(''expectedWorkDuration'',
                         Some (or_else (u ''expectedWorkDuration'')
                           (JObj [(''min'', JNum 0), (''max'', JNum 0),
                                  (''unit'', JStr ''hours'')]))),
                      (''createdAt'', u ''createdAt'')])))]))])"
    by simp
qed

text \<open>
  Bob deactivates his account. Alice, the administrator, then lists one user, who is
  not Bob; she asks for Bob's address and gets it back as not found; and she reads
  Bob's document, with his name and address, as she did before.
\<close>

theorem soft_deleted_user_visibility_witness:
  "unique_ids sample_db \<and> ids_valid sample_env sample_db
   \<and> findById sample_db (user_id (as_bob [] Map.empty)) = Some bob
   \<and> Option.bind (findById (snd (deactivateMe sample_env sample_db (as_bob [] Map.empty))) bob_id)
        (\<lambda>d. d ''isDeleted'') = Some (JBool True)
   \<and> length (users_of (fst (getAllUsers sample_env
        (snd (deactivateMe sample_env sample_db (as_bob [] Map.empty))) (as_alice [] Map.empty)))) = 1
   \<and> list_all (\<lambda>x. get_prop x ''id'' \<noteq> Some (JStr bob_id))
        (users_of (fst (getAllUsers sample_env
           (snd (deactivateMe sample_env sample_db (as_bob [] Map.empty))) (as_alice [] Map.empty))))
   \<and> JStr ''bob@x.io'' \<in> set (notFoundEmails_of (fst (findUsersByEmails sample_env
        (snd (deactivateMe sample_env sample_db (as_bob [] Map.empty)))
        (as_alice [] [''emails'' \<mapsto> JArr (map JStr [''bob@x.io''])]))))
   \<and> fst (getUserById sample_env
        (snd (deactivateMe sample_env sample_db (as_bob [] Map.empty))) (as_alice bob_id Map.empty))
      = fst (getUserById sample_env sample_db (as_alice bob_id Map.empty))
   \<and> fst (getUserById sample_env
        (snd (deactivateMe sample_env sample_db (as_bob [] Map.empty))) (as_alice bob_id Map.empty))
      = Json 200 (JObj
        [(''success'', JBool True),
         (''data'', JObj [(''user'', JObj
            [(''id'', JStr bob_id),
             (''fullname'', JStr ''Bob''), (''username'', JStr ''bob''),
             (''email'', JStr ''bob@x.io''), (''role'', JStr ''userSystem''),
             (''avatar'', JNull), (''skills'', JArr [JStr ''react'']), (''about'', JStr []),
             (''experience'', JStr []), (''yearOfExperience'', JNum 0),
             (''availability'',
                JObj [(''status'', JStr ''available''), (''willingToJoin'', JBool True)]),
             (''expectedWorkDuration'',
                JObj [(''startDate'', JStr ''2025-01-01''), (''endDate'', JStr ''2025-02-01'')])])])])"
proof -
  let ?db' = "snd (deactivateMe sample_env sample_db (as_bob [] Map.empty))"
  have u: "user_id (as_bob [] Map.empty) = bob_id"
    by (simp add: as_bob_def)
  have 3: "findById sample_db (user_id (as_bob [] Map.empty)) = Some bob"
    by (simp add: u findById_sample)
  note t = soft_deleted_user_visibility [OF sample_db_wf 3]
  have a: "Option.bind (findById ?db' bob_id) (\<lambda>d. d ''isDeleted'') = Some (JBool True)"
    using t u by simp
  have b: "list_all (\<lambda>x. get_prop x ''id'' \<noteq> Some (JStr bob_id))
        (users_of (fst (getAllUsers sample_env ?db' (as_alice [] Map.empty))))"
    using t u by (simp add: list_all_iff)
  have l: "length (users_of (fst (getAllUsers sample_env ?db' (as_alice [] Map.empty)))) = 1"
    by (simp add: getAllUsers_def is_admin_def users_of_users find_users_def not_deleted_def
        Let_def deactivateMe_def findByIdAndUpdate_def findById_def save_def sample_defs)
  have q: "email_unique_to sample_db bob_id"
    by (simp add: email_unique_to_def findById_sample)
       (simp add: sample_db_def alice_def bob_def carol_def alice_id_def bob_id_def carol_id_def)
  have e: "bob ''email'' = Some (JStr ''bob@x.io'')"
    by (simp add: bob_def)
  have c: "JStr ''bob@x.io'' \<in> set (notFoundEmails_of (fst (findUsersByEmails sample_env ?db'
        (as_alice [] [''emails'' \<mapsto> JArr (map JStr [''bob@x.io''])]))))"
  proof -
    from t have "\<forall>ev' r es e.
            email_unique_to sample_db (user_id (as_bob [] Map.empty)) \<and> bob ''email'' = Some (JStr e)
            \<and> e \<in> set es \<and> body r ''emails'' = Some (JArr (map JStr es))
            \<and> (\<forall>a \<in> set es. matches emailRegex a)
            \<and> (\<forall>a \<in> set es. user_email r \<noteq> Some (JStr a))
            \<longrightarrow> JStr e \<in> set (notFoundEmails_of (fst (findUsersByEmails ev' ?db' r)))"
      by (elim conjE)
    from this [rule_format, of "''bob@x.io''" "[''bob@x.io'']"
        "as_alice [] [''emails'' \<mapsto> JArr (map JStr [''bob@x.io''])]" sample_env]
    show ?thesis
      using q e u by (simp add: as_alice_def regex_samples)
  qed
  have p: "params_id (as_alice bob_id Map.empty) = user_id (as_bob [] Map.empty)"
    by (simp add: as_alice_def as_bob_def)
  have d: "fst (getUserById sample_env ?db' (as_alice bob_id Map.empty))
      = fst (getUserById sample_env sample_db (as_alice bob_id Map.empty))"
  proof -
    from t have "\<forall>ev' r. params_id r = user_id (as_bob [] Map.empty) \<longrightarrow>
            fst (getUserById ev' ?db' r) = fst (getUserById ev' sample_db r)"
      by (elim conjE)
    with p show ?thesis by blast
  qed
  have g: "fst (getUserById sample_env sample_db (as_alice bob_id Map.empty))
      = Json 200 (JObj
        [(''success'', JBool True),
         (''data'', JObj [(''user'', JObj
            [(''id'', JStr bob_id),
             (''fullname'', JStr ''Bob''), (''username'', JStr ''bob''),
             (''email'', JStr ''bob@x.io''), (''role'', JStr ''userSystem''),
             (''avatar'', JNull), (''skills'', JArr [JStr ''react'']), (''about'', JStr []),
             (''experience'', JStr []), (''yearOfExperience'', JNum 0),
             (''availability'',
                JObj [(''status'', JStr ''available''), (''willingToJoin'', JBool True)]),
             (''expectedWorkDuration'',
                JObj [(''startDate'', JStr ''2025-01-01''), (''endDate'', JStr ''2025-02-01'')])])])])"
    by (simp add: getUserById_def query_defs json_defs sample_defs restrict_map_def)
  from sample_db_wf 3 a l b c d g show ?thesis by simp
qed

end
